theory Spec2Isabelle
  imports Main "HOL-Library.Sublist"
begin

section \<open>The projector: data model, git probe, scanner and screens\<close>

text \<open>
  A shallow embedding of \<^verbatim>\<open>projector/internal/projector\<close> (project.go, git.go,
  scanner.go) and of the two screens of \<^verbatim>\<open>projector/internal/ui/screens\<close>.
  Go strings are byte strings (\<open>len\<close> and slicing count bytes), so \<^typ>\<open>string\<close>
  is read as a list of bytes. A Go \<open>error\<close> is represented by its message; the
  \<open>nil\<close> error is \<open>None\<close>. Everything the program obtains from outside itself
  (sub-processes, the file system, the Go standard library where its behaviour on
  non-ASCII input matters, lipgloss) is a field of a parameter record, so that the
  theorems hold for every behaviour of these collaborators.
\<close>

subsection \<open>project.go\<close>

type_synonym error = string

text \<open>\<open>type StatusType int\<close> with its \<open>iota\<close> constants.\<close>

type_synonym StatusType = int

definition StatusClean :: StatusType where "StatusClean = 0"
definition StatusDirty :: StatusType where "StatusDirty = 1"
definition StatusAhead :: StatusType where "StatusAhead = 2"
definition StatusBehind :: StatusType where "StatusBehind = 3"
definition StatusDiverged :: StatusType where "StatusDiverged = 4"
definition StatusNoRemote :: StatusType where "StatusNoRemote = 5"

text \<open>
  A \<open>time.Time\<close> is modelled by its Unix seconds; the zero \<open>time.Time{}\<close> is
  January 1 of year 1, that is second \<open>-62135596800\<close>.
\<close>

type_synonym Time = int

definition zeroTime :: Time where "zeroTime = - 62135596800"

definition IsZero :: "Time \<Rightarrow> bool" where "IsZero t = (t = zeroTime)"

definition Unix :: "int \<Rightarrow> Time" where "Unix sec = sec"

text \<open>
  The styles of the theme. A \<open>lipgloss.Style\<close> is modelled by its \<open>Render\<close>
  method. The record is declared before \<open>GitStatus\<close>, so that the unqualified field
  \<open>Status\<close> below is the one of \<open>GitStatus\<close>; the style is \<open>Theme.Status\<close>.
\<close>

type_synonym Style = "string \<Rightarrow> string"

record Theme =
  Title :: Style
  Subtle :: Style
  Success :: Style
  Warning :: Style
  Error :: Style
  Status :: Style
  App :: Style

record GitStatus =
  Branch :: string
  Remote :: string
  Uncommitted :: int
  Unpushed :: int
  Unpulled :: int
  LastCommitMsg :: string
  LastCommitTime :: Time
  LastCommitAuthor :: string
  Status :: StatusType

record Project =
  Name :: string
  Path :: string
  Language :: string
  Size :: int
  LastModified :: Time
  Git :: GitStatus

text \<open>The zero value of the struct, \<open>var status GitStatus\<close>.\<close>

definition zero_GitStatus :: GitStatus where
  "zero_GitStatus =
     \<lparr>Branch = [], Remote = [], Uncommitted = 0, Unpushed = 0, Unpulled = 0,
      LastCommitMsg = [], LastCommitTime = zeroTime, LastCommitAuthor = [], Status = 0\<rparr>"

definition StatusType_String :: "StatusType \<Rightarrow> string" where
  "StatusType_String s =
     (if s = StatusClean then ''clean''
      else if s = StatusDirty then ''dirty''
      else if s = StatusAhead then ''ahead''
      else if s = StatusBehind then ''behind''
      else if s = StatusDiverged then ''diverged''
      else if s = StatusNoRemote then ''no-remote''
      else ''unknown'')"

subsection \<open>The outside world\<close>

text \<open>
  What \<open>cmd.Output()\<close> can fail with: an \<open>*exec.ExitError\<close> carrying the standard
  error of the process, or any other error (the binary is missing, the context timed
  out before the start, ...).
\<close>

datatype exec_error = ExitError string | OtherExecError error

datatype DirEntry = DirEntry (entryName: string) (entryIsDir: bool)

text \<open>
  The result of \<open>os.Stat\<close>: an error for which \<open>os.IsNotExist\<close> holds, any other
  error, or a \<open>FileInfo\<close> of which only \<open>IsDir()\<close> is read.
\<close>

datatype stat_result = StatNotExist error | StatError error | StatInfo bool

text \<open>
  The operating system: \<open>Output timeout dir args\<close> is
  \<open>exec.CommandContext(ctx, "git", args...)\<close> run in \<open>dir\<close> under a context with
  that timeout (nanoseconds).
\<close>

record os =
  Output :: "int \<Rightarrow> string \<Rightarrow> string list \<Rightarrow> exec_error + string"
  ReadDir :: "string \<Rightarrow> error + DirEntry list"
  Stat :: "string \<Rightarrow> stat_result"

text \<open>
  The functions of the Go standard library whose result depends on Unicode tables, on
  the platform or on number syntax: \<open>strings.TrimSpace\<close>, \<open>strings.ToLower\<close>,
  \<open>strconv.Atoi\<close>, \<open>strconv.ParseInt(s, 10, 64)\<close> (both return a value together
  with the error), \<open>filepath.Join\<close> of two elements, \<open>filepath.Base\<close> and the
  \<open>%q\<close> verb of \<open>fmt\<close>.
\<close>

record golib =
  TrimSpace :: "string \<Rightarrow> string"
  ToLower :: "string \<Rightarrow> string"
  Atoi :: "string \<Rightarrow> int \<times> error option"
  ParseInt :: "string \<Rightarrow> int \<times> error option"
  Join :: "string \<Rightarrow> string \<Rightarrow> string"
  Base :: "string \<Rightarrow> string"
  Quote :: "string \<Rightarrow> string"

text \<open>
  The observable effects of a run, in order: sub-processes started, files inspected,
  and entries written to the log sink (message, the \<open>path\<close> field if any, the error).
\<close>

datatype event =
  Exec string "string list"
  | StatCall string
  | ReadDirCall string
  | Log string "string option" error

definition logErr :: "error option \<Rightarrow> string \<Rightarrow> string \<Rightarrow> event list" where
  "logErr err path msg = (case err of None \<Rightarrow> [] | Some e \<Rightarrow> [Log msg (Some path) e])"

text \<open>Library functions that are exact on bytes.\<close>

text \<open>\<open>strings.Split(s, sep)\<close> for a separator of one byte.\<close>

fun Split :: "string \<Rightarrow> char \<Rightarrow> string list" where
  "Split [] sep = [[]]"
| "Split (c # cs) sep =
     (if c = sep then [] # Split cs sep
      else (case Split cs sep of [] \<Rightarrow> [[c]] | x # xs \<Rightarrow> (c # x) # xs))"

text \<open>\<open>strings.SplitN(s, sep, n)\<close> for a separator of one byte and \<open>n \<ge> 0\<close>.\<close>

fun SplitN :: "string \<Rightarrow> char \<Rightarrow> nat \<Rightarrow> string list" where
  "SplitN s sep 0 = []"
| "SplitN s sep (Suc 0) = [s]"
| "SplitN [] sep (Suc (Suc n)) = [[]]"
| "SplitN (c # cs) sep (Suc (Suc n)) =
     (if c = sep then [] # SplitN cs sep (Suc n)
      else (case SplitN cs sep (Suc (Suc n)) of [] \<Rightarrow> [[c]] | x # xs \<Rightarrow> (c # x) # xs))"

text \<open>\<open>strings.Join(parts, sep)\<close>.\<close>

fun strings_Join :: "string list \<Rightarrow> string \<Rightarrow> string" where
  "strings_Join [] sep = []"
| "strings_Join [x] sep = x"
| "strings_Join (x # y # ys) sep = x @ sep @ strings_Join (y # ys) sep"

text \<open>\<open>strings.Contains(s, substr)\<close>.\<close>

fun Contains :: "string \<Rightarrow> string \<Rightarrow> bool" where
  "Contains [] substr = (substr = [])"
| "Contains (c # cs) substr = (prefix substr (c # cs) \<or> Contains cs substr)"

text \<open>The \<open>%d\<close> verb of \<open>fmt\<close>.\<close>

fun natToStr :: "nat \<Rightarrow> string" where
  "natToStr n =
     (if n < 10 then [char_of (48 + n)]
      else natToStr (n div 10) @ [char_of (48 + n mod 10)])"

declare natToStr.simps [simp del]

definition Sprintf_d :: "int \<Rightarrow> string" where
  "Sprintf_d i = (if i < 0 then CHR ''-'' # natToStr (nat (- i)) else natToStr (nat i))"

subsection \<open>git.go\<close>

record GitClient =
  timeout :: int

definition Second :: int where "Second = 1000000000"

definition NewGitClient :: "int \<Rightarrow> GitClient" where
  "NewGitClient t = \<lparr>timeout = (if t \<le> 0 then 5 * Second else t)\<rparr>"

text \<open>
  \<open>runGit\<close>: every caller passes at least one argument, so \<open>args[0]\<close> exists; the
  empty case is the index panic and cannot arise from this file.
\<close>

definition runGit :: "os \<Rightarrow> GitClient \<Rightarrow> string \<Rightarrow> string list \<Rightarrow> (error + string) \<times> event list" where
  "runGit w g path args =
     ((case Output w (timeout g) path args of
         Inl (ExitError stderr) \<Rightarrow> Inl (''git '' @ hd args @ '': '' @ stderr)
       | Inl (OtherExecError err) \<Rightarrow> Inl err
       | Inr out \<Rightarrow> Inr out),
      [Exec path args])"

text \<open>The upstream reference: an at sign, then \<open>u\<close> in braces.\<close>

definition upstream_ref :: string where
  "upstream_ref = CHR ''@'' # ''{u}''"

definition getBranch :: "golib \<Rightarrow> os \<Rightarrow> GitClient \<Rightarrow> string \<Rightarrow> (string \<times> error option) \<times> event list" where
  "getBranch L w g path =
     (case runGit w g path [''rev-parse'', ''--abbrev-ref'', ''HEAD''] of
        (Inl err, ev) \<Rightarrow> (([], Some err), ev)
      | (Inr out, ev) \<Rightarrow> ((TrimSpace L out, None), ev))"

definition getRemote :: "golib \<Rightarrow> os \<Rightarrow> GitClient \<Rightarrow> string \<Rightarrow> (string \<times> error option) \<times> event list" where
  "getRemote L w g path =
     (case runGit w g path [''rev-parse'', ''--abbrev-ref'', upstream_ref] of
        (Inl err, ev) \<Rightarrow> (([], Some err), ev)
      | (Inr out, ev) \<Rightarrow> ((TrimSpace L out, None), ev))"

definition getUncommitted :: "golib \<Rightarrow> os \<Rightarrow> GitClient \<Rightarrow> string \<Rightarrow> (int \<times> error option) \<times> event list" where
  "getUncommitted L w g path =
     (case runGit w g path [''status'', ''--porcelain''] of
        (Inl err, ev) \<Rightarrow> ((0, Some err), ev)
      | (Inr out, ev) \<Rightarrow>
          (let lines = TrimSpace L out in
           if lines = [] then ((0, None), ev)
           else ((int (length (Split lines (CHR 0x0A))), None), ev)))"

definition getUnpushed :: "golib \<Rightarrow> os \<Rightarrow> GitClient \<Rightarrow> string \<Rightarrow> (int \<times> error option) \<times> event list" where
  "getUnpushed L w g path =
     (case runGit w g path [''rev-list'', upstream_ref @ ''..HEAD'', ''--count''] of
        (Inl err, ev) \<Rightarrow> ((0, Some err), ev)
      | (Inr out, ev) \<Rightarrow> (Atoi L (TrimSpace L out), ev))"

definition getUnpulled :: "golib \<Rightarrow> os \<Rightarrow> GitClient \<Rightarrow> string \<Rightarrow> (int \<times> error option) \<times> event list" where
  "getUnpulled L w g path =
     (case runGit w g path [''rev-list'', ''HEAD..'' @ upstream_ref, ''--count''] of
        (Inl err, ev) \<Rightarrow> ((0, Some err), ev)
      | (Inr out, ev) \<Rightarrow> (Atoi L (TrimSpace L out), ev))"

definition getLastCommit ::
  "golib \<Rightarrow> os \<Rightarrow> GitClient \<Rightarrow> string \<Rightarrow> (string \<times> string \<times> Time \<times> error option) \<times> event list" where
  "getLastCommit L w g path =
     (case runGit w g path [''log'', ''-1'', ''--format=%s|%an|%ct''] of
        (Inl err, ev) \<Rightarrow> (([], [], zeroTime, Some err), ev)
      | (Inr out, ev) \<Rightarrow>
          (let parts = SplitN (TrimSpace L out) (CHR ''|'') 3 in
           if length parts < 3
           then (([], [], zeroTime, Some (''unexpected log format: '' @ out)), ev)
           else
             (let msg = parts ! 0;
                  author = parts ! 1;
                  (timestamp, err) = ParseInt L (parts ! 2)
              in case err of
                   Some e \<Rightarrow> ((msg, author, zeroTime, Some (''parsing timestamp: '' @ e)), ev)
                 | None \<Rightarrow> ((msg, author, Unix timestamp, None), ev))))"

definition determineStatus :: "int \<Rightarrow> int \<Rightarrow> int \<Rightarrow> StatusType" where
  "determineStatus uncommitted unpushed unpulled =
     (if uncommitted > 0 then StatusDirty
      else if unpushed > 0 \<and> unpulled > 0 then StatusDiverged
      else if unpushed > 0 then StatusAhead
      else if unpulled > 0 then StatusBehind
      else StatusClean)"

text \<open>
  \<open>GetStatus\<close>, split at its blank lines. \<open>probeRemote\<close> is lines 41 to 48: it
  returns the local variable \<open>remote\<close> with the updated status.
\<close>

definition probeRemote ::
  "golib \<Rightarrow> os \<Rightarrow> GitClient \<Rightarrow> string \<Rightarrow> GitStatus \<Rightarrow> (string \<times> GitStatus) \<times> event list" where
  "probeRemote L w g projectPath status =
     (case getRemote L w g projectPath of
        ((remote, Some err), ev) \<Rightarrow>
          ((remote, status\<lparr>Remote := [], Status := StatusNoRemote\<rparr>),
           ev @ [Log ''no remote tracking'' (Some projectPath) err])
      | ((remote, None), ev) \<Rightarrow> ((remote, status\<lparr>Remote := remote\<rparr>), ev))"

text \<open>Lines 50 to 54: the local variable \<open>uncommitted\<close> with the updated status.\<close>

definition probeUncommitted ::
  "golib \<Rightarrow> os \<Rightarrow> GitClient \<Rightarrow> string \<Rightarrow> GitStatus \<Rightarrow> (int \<times> GitStatus) \<times> event list" where
  "probeUncommitted L w g projectPath status =
     (case getUncommitted L w g projectPath of
        ((uncommitted, err), ev) \<Rightarrow>
          ((uncommitted, status\<lparr>Uncommitted := uncommitted\<rparr>),
           ev @ logErr err projectPath ''getting uncommitted''))"

text \<open>Lines 56 to 72.\<close>

definition probeCounts ::
  "golib \<Rightarrow> os \<Rightarrow> GitClient \<Rightarrow> string \<Rightarrow> string \<Rightarrow> int \<Rightarrow> GitStatus \<Rightarrow> GitStatus \<times> event list" where
  "probeCounts L w g projectPath remote uncommitted status =
     (if remote \<noteq> [] then
        (case getUnpushed L w g projectPath of
           ((unpushed, err1), ev1) \<Rightarrow>
             (case getUnpulled L w g projectPath of
                ((unpulled, err2), ev2) \<Rightarrow>
                  (status\<lparr>Unpushed := unpushed, Unpulled := unpulled,
                          Status := determineStatus uncommitted unpushed unpulled\<rparr>,
                   ev1 @ logErr err1 projectPath ''getting unpushed''
                   @ ev2 @ logErr err2 projectPath ''getting unpulled'')))
      else if uncommitted > 0 then (status\<lparr>Status := StatusDirty\<rparr>, [])
      else (status, []))"

text \<open>Lines 74 to 81.\<close>

definition probeLastCommit ::
  "golib \<Rightarrow> os \<Rightarrow> GitClient \<Rightarrow> string \<Rightarrow> GitStatus \<Rightarrow> GitStatus \<times> event list" where
  "probeLastCommit L w g projectPath status =
     (case getLastCommit L w g projectPath of
        ((msg, author, commitTime, Some err), ev) \<Rightarrow>
          (status, ev @ [Log ''getting last commit'' (Some projectPath) err])
      | ((msg, author, commitTime, None), ev) \<Rightarrow>
          (status\<lparr>LastCommitMsg := msg, LastCommitAuthor := author,
                  LastCommitTime := commitTime\<rparr>, ev))"

definition GetStatus ::
  "golib \<Rightarrow> os \<Rightarrow> GitClient \<Rightarrow> string \<Rightarrow> (GitStatus \<times> error option) \<times> event list" where
  "GetStatus L w g projectPath =
     (let status = zero_GitStatus in
      case getBranch L w g projectPath of
        ((branch, Some err), ev0) \<Rightarrow> ((status, Some (''getting branch: '' @ err)), ev0)
      | ((branch, None), ev0) \<Rightarrow>
          (let status = status\<lparr>Branch := branch\<rparr>;
               ((remote, status), ev1) = probeRemote L w g projectPath status;
               ((uncommitted, status), ev2) = probeUncommitted L w g projectPath status;
               (status, ev3) = probeCounts L w g projectPath remote uncommitted status;
               (status, ev4) = probeLastCommit L w g projectPath status
           in ((status, None), ev0 @ ev1 @ ev2 @ ev3 @ ev4)))"

subsection \<open>scanner.go: the scanner\<close>

record Scanner =
  rootDir :: string
  concurrency :: int
  gitClient :: GitClient

definition NewScanner :: "string \<Rightarrow> int \<Rightarrow> int \<Rightarrow> Scanner" where
  "NewScanner root c gitTimeout =
     \<lparr>rootDir = root, concurrency = (if c \<le> 0 then 10 else c),
      gitClient = NewGitClient gitTimeout\<rparr>"

text \<open>\<open>scanProject\<close> returns the \<open>*Project\<close> (\<open>nil\<close> is \<open>None\<close>) and the error.\<close>

definition scanProject ::
  "golib \<Rightarrow> os \<Rightarrow> Scanner \<Rightarrow> string \<Rightarrow> (Project option \<times> error option) \<times> event list" where
  "scanProject L w s dir =
     (let gitDir = Join L dir ''.git'' in
      case Stat w gitDir of
        StatNotExist err \<Rightarrow> ((None, None), [StatCall gitDir])
      | StatError err \<Rightarrow> ((None, Some err), [StatCall gitDir])
      | StatInfo isDir \<Rightarrow>
          if \<not> isDir then ((None, None), [StatCall gitDir])
          else
            (let project = \<lparr>Name = Base L dir, Path = dir, Language = [], Size = 0,
                            LastModified = zeroTime, Git = zero_GitStatus\<rparr>
             in case GetStatus L w (gitClient s) dir of
                  ((gitStatus, err), ev) \<Rightarrow>
                    ((Some (project\<lparr>Git := gitStatus\<rparr>), None),
                     [StatCall gitDir] @ ev @ logErr err dir ''git status error'')))"

text \<open>
  The worker pool. Each worker takes directories from the job channel until it is
  closed and sends a project to \<open>results\<close> or an error to \<open>errors\<close>. The probes of
  different directories do not read each other's results, so what the pool produces is
  what one worker produces on the whole job list, up to the order of the two channels
  and of the events; the theorems below speak of membership only. With
  \<open>concurrency \<le> 0\<close> the loop starts no worker, the buffered job channel takes every
  job, and nothing is probed.
\<close>

fun worker ::
  "golib \<Rightarrow> os \<Rightarrow> Scanner \<Rightarrow> string list \<Rightarrow> Project list \<times> error list \<times> event list" where
  "worker L w s [] = ([], [], [])"
| "worker L w s (dir # jobs) =
     (case worker L w s jobs of
        (results, errors, evs) \<Rightarrow>
          (case scanProject L w s dir of
             ((project, Some err), ev) \<Rightarrow> (results, err # errors, ev @ evs)
           | ((Some project, None), ev) \<Rightarrow> (project # results, errors, ev @ evs)
           | ((None, None), ev) \<Rightarrow> (results, errors, ev @ evs)))"

definition scan_dirs :: "golib \<Rightarrow> Scanner \<Rightarrow> DirEntry list \<Rightarrow> string list" where
  "scan_dirs L s entries = map (\<lambda>entry. Join L (rootDir s) (entryName entry)) (filter entryIsDir entries)"

definition Scan :: "golib \<Rightarrow> os \<Rightarrow> Scanner \<Rightarrow> (Project list \<times> error option) \<times> event list" where
  "Scan L w s =
     (case ReadDir w (rootDir s) of
        Inl err \<Rightarrow> (([], Some err), [ReadDirCall (rootDir s)])
      | Inr entries \<Rightarrow>
          (let dirs = scan_dirs L s entries in
           case (if 0 < concurrency s then worker L w s dirs else ([], [], [])) of
             (projects, errors, evs) \<Rightarrow>
               ((projects, None),
                [ReadDirCall (rootDir s)] @ evs @ map (Log ''scan error'' None) errors)))"

subsection \<open>The screens: shared state\<close>

text \<open>
  A \<open>key.Binding\<close> as \<open>key.NewBinding(key.WithKeys(...), key.WithHelp(k, desc))\<close>
  builds it, the global key map with the three bindings the screens read, and the
  \<open>help.KeyMap\<close> interface by the results of its two methods. Of the \<open>help.Model\<close>
  the screens touch \<open>ShowAll\<close> only.
\<close>

record Binding =
  WithKeys :: "string list"
  WithHelp :: "string \<times> string"

record GlobalKeyMap =
  Back :: Binding
  Help :: Binding
  Quit :: Binding

record KeyMap =
  ShortHelp :: "Binding list"
  FullHelp :: "Binding list list"

record HelpModel =
  ShowAll :: bool

record ScreenBase =
  Theme :: Theme
  IsDark :: bool
  Width :: int
  Height :: int
  Keys :: GlobalKeyMap
  Help :: HelpModel
  AppName :: string

text \<open>
  The collaborators of the screens that are not among the sources: the \<open>styles\<close> and
  \<open>keys\<close> packages of the projector, lipgloss (\<open>Style.Padding\<close>,
  \<open>JoinVertical(lipgloss.Left, ...)\<close>), the two layout helpers of \<open>ScreenBase\<close>
  that wrap lipgloss and the help bubble, and \<open>formatTimeAgo\<close>, which reads the wall
  clock and rounds through floating point.
\<close>

record ui =
  styles_New :: "bool \<Rightarrow> Theme"
  keys_New :: GlobalKeyMap
  keys_KeyMap :: "GlobalKeyMap \<Rightarrow> KeyMap"
  Padding :: "Style \<Rightarrow> int \<Rightarrow> int \<Rightarrow> Style"
  JoinVertical :: "string list \<Rightarrow> string"
  HeaderView :: "ScreenBase \<Rightarrow> string"
  RenderHelp :: "ScreenBase \<Rightarrow> KeyMap \<Rightarrow> string"
  formatTimeAgo :: "Time \<Rightarrow> string"

definition NewBase :: "ui \<Rightarrow> bool \<Rightarrow> string \<Rightarrow> ScreenBase" where
  "NewBase U isDark appName =
     \<lparr>Theme = styles_New U isDark, IsDark = isDark, Width = 0, Height = 0,
      Keys = keys_New U, Help = \<lparr>ShowAll = False\<rparr>, AppName = appName\<rparr>"

text \<open>The messages the screens distinguish; a key press is given by \<open>msg.String()\<close>.\<close>

datatype Msg =
  WindowSizeMsg int int
  | KeyPressMsg string
  | ScanCompleteMsg "Project list" "error option"
  | OtherMsg

text \<open>The glyphs, as their UTF-8 bytes.\<close>

definition glyph_cursor :: string where "glyph_cursor = [CHR 0xE2, CHR 0x96, CHR 0xB8]"
definition glyph_clean :: string where "glyph_clean = [CHR 0xE2, CHR 0x9C, CHR 0x93]"
definition glyph_dirty :: string where "glyph_dirty = [CHR 0xE2, CHR 0x97, CHR 0x8F]"
definition glyph_up :: string where "glyph_up = [CHR 0xE2, CHR 0x86, CHR 0x91]"
definition glyph_down :: string where "glyph_down = [CHR 0xE2, CHR 0x86, CHR 0x93]"
definition glyph_diverged :: string where "glyph_diverged = [CHR 0xE2, CHR 0x9A, CHR 0xA0]"
definition glyph_noRemote :: string where "glyph_noRemote = [CHR 0xE2, CHR 0x97, CHR 0x8B]"
definition glyph_plusminus :: string where "glyph_plusminus = [CHR 0xC2, CHR 0xB1]"
definition glyph_block :: string where "glyph_block = [CHR 0xE2, CHR 0x96, CHR 0x88]"

definition newline :: string where "newline = [CHR 0x0A]"
definition dquote :: string where "dquote = [CHR 0x22]"

subsection \<open>scanner.go: the project-detail screen\<close>

record ProjectDetailScreen = ScreenBase +
  project :: Project
  ready :: bool

definition NewProjectDetailScreen :: "ui \<Rightarrow> Project \<Rightarrow> bool \<Rightarrow> string \<Rightarrow> ProjectDetailScreen" where
  "NewProjectDetailScreen U p isDark appName =
     ScreenBase.extend (NewBase U isDark appName)
       (ProjectDetailScreen.fields p False)"

text \<open>The commands a screen returns: \<open>nil\<close> is \<open>None\<close>.\<close>

datatype Cmd = scanCmd Scanner | Push ProjectDetailScreen | Pop

definition DetailUpdate :: "ProjectDetailScreen \<Rightarrow> Msg \<Rightarrow> ProjectDetailScreen \<times> Cmd option" where
  "DetailUpdate s msg =
     (case msg of
        WindowSizeMsg w h \<Rightarrow>
          (s\<lparr>Width := w, Height := h, ProjectDetailScreen.ready := True\<rparr>, None)
      | KeyPressMsg k \<Rightarrow>
          if k = ''esc'' \<or> k = ''q'' then (s, Some Pop)
          else if k = ''?'' then (s\<lparr>Help := (Help s)\<lparr>ShowAll := \<not> ShowAll (Help s)\<rparr>\<rparr>, None)
          else (s, None)
      | _ \<Rightarrow> (s, None))"

definition DetailLines :: "golib \<Rightarrow> ProjectDetailScreen \<Rightarrow> string list" where
  "DetailLines L s =
     (let p = project s; g = Git p; t = Theme s in
      [Title t (Name p), [], Subtle t ''Path: '' @ Path p]
      @ (if Language p \<noteq> [] then [Subtle t ''Language: '' @ Language p] else [])
      @ [[], Theme.Status t ''Git Status:'', ''  Branch: '' @ Branch g]
      @ (if Remote g \<noteq> [] then [''  Remote: '' @ Remote g] else [''  Remote: (none)''])
      @ (if Uncommitted g > 0
         then [''  Uncommitted: '' @ Sprintf_d (Uncommitted g) @ '' file(s)''] else [])
      @ (if Unpushed g > 0
         then [''  Unpushed: '' @ Sprintf_d (Unpushed g) @ '' commit(s)''] else [])
      @ (if Unpulled g > 0
         then [''  Unpulled: '' @ Sprintf_d (Unpulled g) @ '' commit(s)''] else [])
      @ (if LastCommitMsg g \<noteq> []
         then [''  Last commit: '' @ Quote L (LastCommitMsg g)]
              @ (if LastCommitAuthor g \<noteq> [] then [''  Author: '' @ LastCommitAuthor g] else [])
         else []))"

definition DetailView :: "golib \<Rightarrow> ui \<Rightarrow> ProjectDetailScreen \<Rightarrow> string" where
  "DetailView L U s =
     (if \<not> ProjectDetailScreen.ready s then ''Loading...''
      else
        (let content = strings_Join (DetailLines L s) newline in
         App (Theme s)
           (JoinVertical U
              [HeaderView U (ScreenBase.truncate s), content,
               RenderHelp U (ScreenBase.truncate s) (keys_KeyMap U (Keys s))])))"

subsection \<open>scanner.go: the project-list screen\<close>

record ProjectsListScreen = ScreenBase +
  projects :: "Project list"
  selectedIdx :: int
  scanning :: bool
  ready :: bool
  projectsDir :: string
  scanner :: "Scanner option"
  filterText :: string
  filtering :: bool

definition NewProjectsListScreen :: "ui \<Rightarrow> string \<Rightarrow> bool \<Rightarrow> string \<Rightarrow> ProjectsListScreen" where
  "NewProjectsListScreen U dir isDark appName =
     ScreenBase.extend (NewBase U isDark appName)
       (ProjectsListScreen.fields [] 0 False False dir None [] False)"

definition SetScanner :: "ProjectsListScreen \<Rightarrow> Scanner option \<Rightarrow> ProjectsListScreen" where
  "SetScanner s sc = s\<lparr>scanner := sc\<rparr>"

definition Init :: "ProjectsListScreen \<Rightarrow> ProjectsListScreen \<times> Cmd option" where
  "Init s =
     (case scanner s of
        Some sc \<Rightarrow> (s\<lparr>scanning := True\<rparr>, Some (scanCmd sc))
      | None \<Rightarrow> (s, None))"

definition filteredProjects :: "golib \<Rightarrow> ProjectsListScreen \<Rightarrow> Project list" where
  "filteredProjects L s =
     (if filterText s = [] then projects s
      else filter (\<lambda>p. Contains (ToLower L (Name p)) (ToLower L (filterText s))) (projects s))"

definition handleFilterInput :: "ProjectsListScreen \<Rightarrow> string \<Rightarrow> ProjectsListScreen \<times> Cmd option" where
  "handleFilterInput s k =
     (if k = ''esc'' then (s\<lparr>filtering := False, filterText := []\<rparr>, None)
      else if k = ''enter'' then (s\<lparr>filtering := False\<rparr>, None)
      else if k = ''backspace'' then
        (if length (filterText s) > 0
         then (s\<lparr>filterText := take (length (filterText s) - 1) (filterText s)\<rparr>, None)
         else (s, None))
      else if length k = 1 then (s\<lparr>filterText := filterText s @ k\<rparr>, None)
      else (s, None))"

text \<open>
  Indexing a slice with a negative index panics; \<open>filtered[s.selectedIdx]\<close> is
  guarded from above only.
\<close>

datatype panic = IndexOutOfRange

definition handleNormalInput ::
  "golib \<Rightarrow> ui \<Rightarrow> ProjectsListScreen \<Rightarrow> string \<Rightarrow> panic + ProjectsListScreen \<times> Cmd option" where
  "handleNormalInput L U s k =
     (let filtered = filteredProjects L s in
      if k = ''up'' \<or> k = ''k'' then
        Inr (if selectedIdx s > 0 then s\<lparr>selectedIdx := selectedIdx s - 1\<rparr> else s, None)
      else if k = ''down'' \<or> k = ''j'' then
        Inr (if selectedIdx s < int (length filtered) - 1
             then s\<lparr>selectedIdx := selectedIdx s + 1\<rparr> else s, None)
      else if k = ''r'' then
        (case scanner s of
           Some sc \<Rightarrow>
             if \<not> scanning s then Inr (s\<lparr>scanning := True\<rparr>, Some (scanCmd sc))
             else Inr (s, None)
         | None \<Rightarrow> Inr (s, None))
      else if k = ''/'' then Inr (s\<lparr>filtering := True, filterText := []\<rparr>, None)
      else if k = ''enter'' then
        (if length filtered > 0 \<and> selectedIdx s < int (length filtered) then
           (if selectedIdx s < 0 then Inl IndexOutOfRange
            else Inr (s, Some (Push (NewProjectDetailScreen U
                                       (filtered ! nat (selectedIdx s)) (IsDark s) (AppName s)))))
         else Inr (s, None))
      else if k = ''esc'' then Inr (s, Some Pop)
      else if k = ''?'' then
        Inr (s\<lparr>Help := (Help s)\<lparr>ShowAll := \<not> ShowAll (Help s)\<rparr>\<rparr>, None)
      else Inr (s, None))"

definition Update ::
  "golib \<Rightarrow> ui \<Rightarrow> ProjectsListScreen \<Rightarrow> Msg \<Rightarrow> panic + ProjectsListScreen \<times> Cmd option" where
  "Update L U s msg =
     (case msg of
        WindowSizeMsg w h \<Rightarrow> Inr (s\<lparr>Width := w, Height := h, ready := True\<rparr>, None)
      | KeyPressMsg k \<Rightarrow>
          if filtering s then Inr (handleFilterInput s k) else handleNormalInput L U s k
      | ScanCompleteMsg ps err \<Rightarrow>
          (let s = s\<lparr>scanning := False\<rparr>;
               s = (case err of Some e \<Rightarrow> s\<lparr>projects := []\<rparr> | None \<Rightarrow> s\<lparr>projects := ps\<rparr>);
               s = (if selectedIdx s \<ge> int (length (filteredProjects L s))
                    then s\<lparr>selectedIdx := max 0 (int (length (filteredProjects L s)) - 1)\<rparr>
                    else s)
           in Inr (s, None))
      | OtherMsg \<Rightarrow> Inr (s, None))"

text \<open>A sequence of messages delivered to the screen; a panic ends the run.\<close>

fun Updates ::
  "golib \<Rightarrow> ui \<Rightarrow> ProjectsListScreen \<Rightarrow> Msg list \<Rightarrow> panic + ProjectsListScreen" where
  "Updates L U s [] = Inr s"
| "Updates L U s (m # ms) =
     (case Update L U s m of Inl e \<Rightarrow> Inl e | Inr (s', c) \<Rightarrow> Updates L U s' ms)"

definition formatGitStatus :: "GitStatus \<Rightarrow> Theme \<Rightarrow> string" where
  "formatGitStatus g t =
     (let parts =
        (if Status g = StatusClean then [Success t glyph_clean]
         else if Status g = StatusDirty then [Warning t glyph_dirty]
         else if Status g = StatusAhead then [Theme.Status t glyph_up]
         else if Status g = StatusBehind then [Theme.Status t glyph_down]
         else if Status g = StatusDiverged then [Error t glyph_diverged]
         else if Status g = StatusNoRemote then [Subtle t glyph_noRemote]
         else [])
        @ (if Uncommitted g > 0
           then [Warning t (glyph_plusminus @ Sprintf_d (Uncommitted g))] else [])
        @ (if Unpushed g > 0 then [Theme.Status t (glyph_up @ Sprintf_d (Unpushed g))] else [])
        @ (if Unpulled g > 0 then [Theme.Status t (glyph_down @ Sprintf_d (Unpulled g))] else [])
      in strings_Join parts '' '')"

text \<open>
  \<open>renderProjectLine\<close>: the slice \<open>parts\<close> is built block by block;
  \<open>subjectPart\<close> is the block of lines 566 to 572, the last-commit subject.
\<close>

definition subjectPart :: "Theme \<Rightarrow> GitStatus \<Rightarrow> string list" where
  "subjectPart t g =
     (if LastCommitMsg g \<noteq> [] then
        (let msg = LastCommitMsg g;
             msg = (if length msg > 30 then take 27 msg @ ''...'' else msg)
         in [Subtle t (dquote @ msg @ dquote)])
      else [])"

definition renderProjectParts :: "ui \<Rightarrow> Theme \<Rightarrow> Project \<Rightarrow> bool \<Rightarrow> string list" where
  "renderProjectParts U t p selected =
     (if selected then [Theme.Status t glyph_cursor] else ['' ''])
     @ [Name p]
     @ (if Branch (Git p) \<noteq> [] then [Subtle t (''['' @ Branch (Git p) @ '']'')] else [])
     @ (let status = formatGitStatus (Git p) t in if status \<noteq> [] then [status] else [])
     @ subjectPart t (Git p)
     @ (if \<not> IsZero (LastCommitTime (Git p))
        then [Subtle t (formatTimeAgo U (LastCommitTime (Git p)))] else [])"

definition renderProjectLine :: "ui \<Rightarrow> ProjectsListScreen \<Rightarrow> Project \<Rightarrow> bool \<Rightarrow> string" where
  "renderProjectLine U s p selected =
     strings_Join (renderProjectParts U (Theme s) p selected) '' ''"

definition projectsHelpKeys :: "GlobalKeyMap \<Rightarrow> KeyMap" where
  "projectsHelpKeys app =
     (let refresh = \<lparr>WithKeys = [''r''], WithHelp = (''r'', ''refresh'')\<rparr>;
          enter = \<lparr>WithKeys = [''enter''], WithHelp = (''enter'', ''details'')\<rparr>
      in \<lparr>ShortHelp = [refresh, enter, Back app, GlobalKeyMap.Help app],
          FullHelp = [[refresh, enter, Back app], [GlobalKeyMap.Help app, Quit app]]\<rparr>)"

fun renderRows :: "ui \<Rightarrow> ProjectsListScreen \<Rightarrow> int \<Rightarrow> Project list \<Rightarrow> string" where
  "renderRows U s i [] = []"
| "renderRows U s i (p # ps) =
     renderProjectLine U s p (i = selectedIdx s) @ newline @ renderRows U s (i + 1) ps"

definition View :: "golib \<Rightarrow> ui \<Rightarrow> ProjectsListScreen \<Rightarrow> string" where
  "View L U s =
     (if \<not> ready s then ''Loading...''
      else
        (let t = Theme s;
             header = (if scanning s then Title t (AppName s @ '' (scanning...)'')
                       else HeaderView U (ScreenBase.truncate s));
             filtered = filteredProjects L s;
             content =
               (if filtering s
                then Subtle t ''Filter: '' @ filterText s @ glyph_block @ newline @ newline
                else if filterText s \<noteq> []
                then Subtle t ''Filter: '' @ filterText s @ newline @ newline
                else [])
               @ (if length filtered = 0 then
                    (if scanning s then Subtle t ''Scanning for projects...''
                     else Subtle t ''No projects found.'')
                  else renderRows U s 0 filtered);
             footer = Padding U (Subtle t) 0 1
                        (Sprintf_d (int (length filtered)) @ '' project(s)'')
         in App t
              (JoinVertical U
                 [header, content, footer,
                  RenderHelp U (ScreenBase.truncate s) (projectsHelpKeys (Keys s))])))"

fun DetailUpdates :: "ProjectDetailScreen \<Rightarrow> Msg list \<Rightarrow> ProjectDetailScreen" where
  "DetailUpdates s [] = s"
| "DetailUpdates s (m # ms) = DetailUpdates (fst (DetailUpdate s m)) ms"

subsection \<open>The derivation table of the specification\<close>

text \<open>
  The table of the specification, first match first: (1) upstream absent gives
  \<open>noRemote\<close> if also \<open>uncommitted = 0\<close>, otherwise \<open>dirty\<close>; (2) \<open>uncommitted > 0\<close>
  gives \<open>dirty\<close>; (3) \<open>unpushed > 0\<close> and \<open>unpulled > 0\<close> give \<open>diverged\<close>;
  (4) \<open>unpushed > 0\<close> gives \<open>ahead\<close>; (5) \<open>unpulled > 0\<close> gives \<open>behind\<close>;
  (6) otherwise \<open>clean\<close>. It is written from the specification, to be compared with
  what \<open>GetStatus\<close> stores.
\<close>

definition spec_StatusKind :: "bool \<Rightarrow> int \<Rightarrow> int \<Rightarrow> int \<Rightarrow> StatusType" where
  "spec_StatusKind upstream_absent uncommitted unpushed unpulled =
     (if upstream_absent then (if uncommitted = 0 then StatusNoRemote else StatusDirty)
      else if uncommitted > 0 then StatusDirty
      else if unpushed > 0 \<and> unpulled > 0 then StatusDiverged
      else if unpushed > 0 then StatusAhead
      else if unpulled > 0 then StatusBehind
      else StatusClean)"

definition StatusKinds :: "StatusType list" where
  "StatusKinds =
     [StatusClean, StatusDirty, StatusAhead, StatusBehind, StatusDiverged, StatusNoRemote]"

text \<open>The selection interval of the specification, \<open>[0, max(0, len(filtered)-1)]\<close>.\<close>

definition selection_in_range :: "golib \<Rightarrow> ProjectsListScreen \<Rightarrow> bool" where
  "selection_in_range L s =
     (0 \<le> selectedIdx s
      \<and> selectedIdx s \<le> max 0 (int (length (filteredProjects L s)) - 1))"

text \<open>
  The characters of a subject, as the specification counts them: the code points of the
  UTF-8 text, that is the bytes that are not continuation bytes. The code counts bytes.
\<close>

definition spec_characters :: "string \<Rightarrow> nat" where
  "spec_characters s =
     length (filter (\<lambda>c. \<not> (128 \<le> (of_char c :: nat) \<and> (of_char c :: nat) < 192)) s)"

text \<open>Events that start one of the two \<open>rev-list\<close> count queries, and log entries.\<close>

fun is_count_query :: "event \<Rightarrow> bool" where
  "is_count_query (Exec dir args) = (take 1 args = [''rev-list''])"
| "is_count_query _ = False"

fun is_Log :: "event \<Rightarrow> bool" where
  "is_Log (Log msg path err) = True"
| "is_Log _ = False"

fun is_WindowSizeMsg :: "Msg \<Rightarrow> bool" where
  "is_WindowSizeMsg (WindowSizeMsg w h) = True"
| "is_WindowSizeMsg _ = False"

subsection \<open>Concrete collaborators, for evaluating the program on examples\<close>

text \<open>
  A library that agrees with Go's on ASCII text and on numbers within range, an
  unstyled theme, and a plain layout.
\<close>

definition isSpace :: "char \<Rightarrow> bool" where
  "isSpace c = (c \<in> set [CHR 0x09, CHR 0x0A, CHR 0x0B, CHR 0x0C, CHR 0x0D, CHR 0x20])"

definition ascii_TrimSpace :: "string \<Rightarrow> string" where
  "ascii_TrimSpace s = rev (dropWhile isSpace (rev (dropWhile isSpace s)))"

definition ascii_ToLower :: "string \<Rightarrow> string" where
  "ascii_ToLower s =
     map (\<lambda>c. if 65 \<le> (of_char c :: nat) \<and> (of_char c :: nat) \<le> 90
              then char_of ((of_char c :: nat) + 32) else c) s"

fun digits_value :: "string \<Rightarrow> nat \<Rightarrow> nat option" where
  "digits_value [] acc = Some acc"
| "digits_value (c # cs) acc =
     (if 48 \<le> (of_char c :: nat) \<and> (of_char c :: nat) \<le> 57
      then digits_value cs (10 * acc + ((of_char c :: nat) - 48)) else None)"

definition decimal_Atoi :: "string \<Rightarrow> int \<times> error option" where
  "decimal_Atoi s =
     (let body = (if take 1 s = ''-'' \<or> take 1 s = ''+'' then drop 1 s else s) in
      if body = [] then (0, Some ''invalid syntax'')
      else (case digits_value body 0 of
              None \<Rightarrow> (0, Some ''invalid syntax'')
            | Some n \<Rightarrow> (if take 1 s = ''-'' then - int n else int n, None)))"

definition slash_Join :: "string \<Rightarrow> string \<Rightarrow> string" where
  "slash_Join a b = a @ ''/'' @ b"

definition slash_Base :: "string \<Rightarrow> string" where
  "slash_Base path = rev (takeWhile (\<lambda>c. c \<noteq> CHR ''/'') (rev path))"

definition sample_lib :: golib where
  "sample_lib =
     \<lparr>TrimSpace = ascii_TrimSpace, ToLower = ascii_ToLower, Atoi = decimal_Atoi,
      ParseInt = decimal_Atoi, Join = slash_Join, Base = slash_Base,
      Quote = (\<lambda>s. dquote @ s @ dquote)\<rparr>"

definition plain_theme :: Theme where
  "plain_theme =
     \<lparr>Title = (\<lambda>s. s), Subtle = (\<lambda>s. s), Success = (\<lambda>s. s), Warning = (\<lambda>s. s),
      Error = (\<lambda>s. s), Status = (\<lambda>s. s), App = (\<lambda>s. s)\<rparr>"

definition plain_keys :: GlobalKeyMap where
  "plain_keys =
     \<lparr>Back = \<lparr>WithKeys = [''esc''], WithHelp = (''esc'', ''back'')\<rparr>,
      Help = \<lparr>WithKeys = [''?''], WithHelp = (''?'', ''help'')\<rparr>,
      Quit = \<lparr>WithKeys = [''ctrl+c''], WithHelp = (''ctrl+c'', ''quit'')\<rparr>\<rparr>"

definition plain_ui :: ui where
  "plain_ui =
     \<lparr>styles_New = (\<lambda>isDark. plain_theme), keys_New = plain_keys,
      keys_KeyMap = (\<lambda>k. \<lparr>ShortHelp = [Back k, GlobalKeyMap.Help k],
                          FullHelp = [[Back k, GlobalKeyMap.Help k, Quit k]]\<rparr>),
      Padding = (\<lambda>st v h. st),
      JoinVertical = (\<lambda>parts. strings_Join parts newline),
      HeaderView = AppName,
      RenderHelp = (\<lambda>b km. strings_Join (map (\<lambda>k. fst (WithHelp k)) (ShortHelp km)) '' ''),
      formatTimeAgo = (\<lambda>t. ''just now'')\<rparr>"

text \<open>
  Three file systems under the root \<open>/src\<close>. In the first the only child \<open>new\<close>
  is a repository without any commit: every git query exits with an error. In the
  second the only child \<open>app\<close> is on branch \<open>main\<close> without upstream and has two
  modified files. In the third the root cannot be read.
\<close>

definition os_no_commits :: os where
  "os_no_commits =
     \<lparr>Output = (\<lambda>t dir args. Inl (ExitError ''fatal: bad revision'')),
      ReadDir = (\<lambda>dir. if dir = ''/src'' then Inr [DirEntry ''new'' True]
                        else Inl ''no such file or directory''),
      Stat = (\<lambda>path. if path = ''/src/new/.git'' then StatInfo True
                      else StatNotExist ''no such file or directory'')\<rparr>"

definition out_branch :: string where "out_branch = ''main\<newline>''"

definition out_status :: string where
  "out_status = '' M a.go\<newline> M b.go\<newline>''"

definition out_log :: string where "out_log = ''init|ann|1700000000\<newline>''"

definition os_no_upstream :: os where
  "os_no_upstream =
     \<lparr>Output = (\<lambda>t dir args.
         if args = [''rev-parse'', ''--abbrev-ref'', ''HEAD''] then Inr out_branch
         else if args = [''status'', ''--porcelain''] then Inr out_status
         else if args = [''log'', ''-1'', ''--format=%s|%an|%ct''] then Inr out_log
         else Inl (ExitError ''fatal: no upstream configured for branch'')),
      ReadDir = (\<lambda>dir. if dir = ''/src'' then Inr [DirEntry ''app'' True, DirEntry ''notes.txt'' False]
                        else Inl ''no such file or directory''),
      Stat = (\<lambda>path. if path = ''/src/app/.git'' then StatInfo True
                      else StatNotExist ''no such file or directory'')\<rparr>"

definition os_unreadable :: os where
  "os_unreadable =
     \<lparr>Output = (\<lambda>t dir args. Inl (OtherExecError ''not started'')),
      ReadDir = (\<lambda>dir. Inl ''permission denied''),
      Stat = (\<lambda>path. StatError ''permission denied'')\<rparr>"

definition sample_scanner :: Scanner where
  "sample_scanner = NewScanner ''/src'' 0 0"

definition named :: "string \<Rightarrow> Project" where
  "named n =
     \<lparr>Name = n, Path = ''/src/'' @ n, Language = [], Size = 0, LastModified = zeroTime,
      Git = zero_GitStatus\<rparr>"

definition sample_screen :: ProjectsListScreen where
  "sample_screen =
     SetScanner (NewProjectsListScreen plain_ui ''/src'' False ''projector'')
       (Some sample_scanner)"

text \<open>A subject of twelve characters of three bytes each (U+65E5).\<close>

definition wide_subject :: string where
  "wide_subject = concat (replicate 12 [CHR 0xE6, CHR 0x97, CHR 0xA5])"

text \<open>
  The list screen after a first window size, a scan that found three projects, and two
  presses of \<open>j\<close>.
\<close>

definition three_projects :: "Project list" where
  "three_projects = [named ''alpha'', named ''Beta'', named ''gamma'']"

definition browsing :: ProjectsListScreen where
  "browsing =
     sample_screen\<lparr>Width := 80, Height := 24, projects := three_projects, selectedIdx := 2,
                    ready := True\<rparr>"

text \<open>
  The second file system again, where the last commit of \<open>app\<close> was made with an
  empty message (\<open>git commit --allow-empty-message\<close>), and the status its probe
  returns.
\<close>

definition out_log_empty_subject :: string where
  "out_log_empty_subject = ''|ann|1700000000\<newline>''"

definition os_empty_subject :: os where
  "os_empty_subject =
     os_no_upstream\<lparr>Output := (\<lambda>t dir args.
        if args = [''log'', ''-1'', ''--format=%s|%an|%ct''] then Inr out_log_empty_subject
        else Output os_no_upstream t dir args)\<rparr>"

definition commit_without_subject :: GitStatus where
  "commit_without_subject =
     \<lparr>Branch = ''main'', Remote = [], Uncommitted = 2, Unpushed = 0, Unpulled = 0,
      LastCommitMsg = [], LastCommitTime = 1700000000, LastCommitAuthor = ''ann'',
      Status = StatusDirty\<rparr>"

section \<open>Properties\<close>

lemmas StatusType_defs =
  StatusClean_def StatusDirty_def StatusAhead_def StatusBehind_def
  StatusDiverged_def StatusNoRemote_def

subsection \<open>The probe\<close>

lemma getUncommitted_nonneg: "0 \<le> fst (fst (getUncommitted L w g p))"
  by (simp add: getUncommitted_def runGit_def Let_def split: sum.splits exec_error.splits prod.splits)

lemma getRemote_err_empty: "snd (fst (getRemote L w g p)) = Some e \<Longrightarrow> fst (fst (getRemote L w g p)) = []"
  by (auto simp add: getRemote_def runGit_def split: sum.splits exec_error.splits)

lemma getUncommitted_err_zero:
  "snd (fst (getUncommitted L w g p)) = Some e \<Longrightarrow> fst (fst (getUncommitted L w g p)) = 0"
  by (auto simp add: getUncommitted_def runGit_def Let_def split: sum.splits exec_error.splits if_splits)

lemma GetStatus_branch_err:
  "snd (fst (getBranch L w g p)) = Some e \<Longrightarrow>
   GetStatus L w g p = ((zero_GitStatus, Some (''getting branch: '' @ e)), snd (getBranch L w g p))"
  by (auto simp add: GetStatus_def Let_def split: prod.splits option.splits)

lemma GetStatus_ok_fields:
  assumes "snd (fst (getBranch L w g p)) = None"
  shows "snd (fst (GetStatus L w g p)) = None"
    and "Branch (fst (fst (GetStatus L w g p))) = fst (fst (getBranch L w g p))"
    and "Remote (fst (fst (GetStatus L w g p))) = fst (fst (getRemote L w g p))"
    and "Uncommitted (fst (fst (GetStatus L w g p))) = fst (fst (getUncommitted L w g p))"
    and "Unpushed (fst (fst (GetStatus L w g p))) =
           (if fst (fst (getRemote L w g p)) \<noteq> [] then fst (fst (getUnpushed L w g p)) else 0)"
    and "Unpulled (fst (fst (GetStatus L w g p))) =
           (if fst (fst (getRemote L w g p)) \<noteq> [] then fst (fst (getUnpulled L w g p)) else 0)"
    and "Status (fst (fst (GetStatus L w g p))) =
           (if fst (fst (getRemote L w g p)) \<noteq> []
            then determineStatus (fst (fst (getUncommitted L w g p))) (fst (fst (getUnpushed L w g p))) (fst (fst (getUnpulled L w g p)))
            else if fst (fst (getUncommitted L w g p)) > 0 then StatusDirty
            else if snd (fst (getRemote L w g p)) \<noteq> None then StatusNoRemote else 0)"
  using assms getRemote_err_empty[of L w g p]
  by (simp_all add: GetStatus_def Let_def probeRemote_def probeUncommitted_def probeCounts_def
      probeLastCommit_def zero_GitStatus_def case_prod_beta split: option.splits)

lemma StatusKinds_distinct: "distinct StatusKinds"
  by (simp add: StatusKinds_def StatusType_defs)

lemma determineStatus_kind: "determineStatus a b c \<in> set StatusKinds"
  by (simp add: determineStatus_def StatusKinds_def)

lemma GetStatus_kind: "Status (fst (fst (GetStatus L w g p))) \<in> set StatusKinds"
proof (cases "snd (fst (getBranch L w g p))")
  case None
  show ?thesis
    by (simp add: GetStatus_ok_fields[OF None] determineStatus_kind)
       (simp add: StatusKinds_def StatusType_defs)
next
  case (Some e)
  show ?thesis
    by (simp add: GetStatus_branch_err[OF Some] zero_GitStatus_def StatusKinds_def StatusType_defs)
qed

lemma GetStatus_status_by_query:
  assumes "snd (fst (getBranch L w g p)) = None"
  shows "Status (fst (fst (GetStatus L w g p))) =
           spec_StatusKind (snd (fst (getRemote L w g p)) \<noteq> None)
             (Uncommitted (fst (fst (GetStatus L w g p))))
             (Unpushed (fst (fst (GetStatus L w g p))))
             (Unpulled (fst (fst (GetStatus L w g p))))"
proof (cases "snd (fst (getRemote L w g p))")
  case None
  then show ?thesis
    by (simp add: GetStatus_ok_fields[OF assms] spec_StatusKind_def determineStatus_def StatusClean_def)
next
  case (Some e)
  from getRemote_err_empty[OF Some] Some getUncommitted_nonneg[of L w g p] show ?thesis
    by (simp add: GetStatus_ok_fields[OF assms] spec_StatusKind_def)
qed

lemma GetStatus_remote_empty_iff:
  assumes "snd (fst (getBranch L w g p)) = None" and "fst (getRemote L w g p) \<noteq> ([], None)"
  shows "(Remote (fst (fst (GetStatus L w g p))) = []) = (snd (fst (getRemote L w g p)) \<noteq> None)"
proof (cases "snd (fst (getRemote L w g p))")
  case None
  with assms(2) have "fst (fst (getRemote L w g p)) \<noteq> []"
    by (cases "fst (getRemote L w g p)") auto
  with None show ?thesis by (simp add: GetStatus_ok_fields[OF assms(1)])
next
  case (Some e)
  from getRemote_err_empty[OF Some] Some show ?thesis
    by (simp add: GetStatus_ok_fields[OF assms(1)])
qed

text \<open>
  The one remaining case of a successful probe: the upstream query succeeds with a
  blank name. Then \<open>Remote\<close> is empty, the counts stay zero, and the status is
  \<open>dirty\<close> or \<open>clean\<close>.
\<close>

lemma GetStatus_blank_upstream:
  assumes "snd (fst (getBranch L w g p)) = None"
    and "fst (getRemote L w g p) = ([], None)"
  shows "Remote (fst (fst (GetStatus L w g p))) = []
         \<and> Status (fst (fst (GetStatus L w g p))) =
             (if 0 < Uncommitted (fst (fst (GetStatus L w g p))) then StatusDirty else StatusClean)"
  using assms(2) by (simp add: GetStatus_ok_fields[OF assms(1)] StatusClean_def)

lemma GetStatus_upstream_failed:
  assumes "snd (fst (getBranch L w g p)) = None" and "snd (fst (getRemote L w g p)) = Some e"
  shows "Status (fst (fst (GetStatus L w g p))) =
           (if Uncommitted (fst (fst (GetStatus L w g p))) = 0 then StatusNoRemote else StatusDirty)"
    and "Remote (fst (fst (GetStatus L w g p))) = []"
    and "Unpushed (fst (fst (GetStatus L w g p))) = 0"
    and "Unpulled (fst (fst (GetStatus L w g p))) = 0"
  using getRemote_err_empty[OF assms(2)] assms(2) getUncommitted_nonneg[of L w g p]
  by (simp_all add: GetStatus_ok_fields[OF assms(1)])

lemma count_query_failed:
  "fst (runGit w g p [''rev-list'', upstream_ref @ ''..HEAD'', ''--count'']) = Inl e \<Longrightarrow>
     fst (fst (getUnpushed L w g p)) = 0"
  "fst (runGit w g p [''rev-list'', ''HEAD..'' @ upstream_ref, ''--count'']) = Inl e \<Longrightarrow>
     fst (fst (getUnpulled L w g p)) = 0"
  by (simp_all add: getUnpushed_def getUnpulled_def case_prod_beta split: sum.splits)

lemma GetStatus_failed_queries_zero:
  assumes "snd (fst (getBranch L w g p)) = None"
  shows "snd (fst (getUncommitted L w g p)) \<noteq> None \<longrightarrow>
           Uncommitted (fst (fst (GetStatus L w g p))) = 0"
    and "snd (snd (snd (fst (getLastCommit L w g p)))) \<noteq> None \<longrightarrow>
           LastCommitMsg (fst (fst (GetStatus L w g p))) = []
           \<and> LastCommitAuthor (fst (fst (GetStatus L w g p))) = []
           \<and> LastCommitTime (fst (fst (GetStatus L w g p))) = zeroTime"
  using assms getUncommitted_err_zero[of L w g p]
   apply (auto simp add: GetStatus_ok_fields[OF assms])[1]
  using assms
  apply (auto simp add: GetStatus_def Let_def probeRemote_def probeUncommitted_def probeCounts_def
      probeLastCommit_def zero_GitStatus_def case_prod_beta split: option.splits)
  done

lemma query_events:
  "snd (getBranch L w g p) = [Exec p [''rev-parse'', ''--abbrev-ref'', ''HEAD'']]"
  "snd (getRemote L w g p) = [Exec p [''rev-parse'', ''--abbrev-ref'', upstream_ref]]"
  "snd (getUncommitted L w g p) = [Exec p [''status'', ''--porcelain'']]"
  "snd (getLastCommit L w g p) = [Exec p [''log'', ''-1'', ''--format=%s|%an|%ct'']]"
     apply (simp add: getBranch_def runGit_def split: sum.splits exec_error.splits)
    apply (simp add: getRemote_def runGit_def split: sum.splits exec_error.splits)
   apply (simp add: getUncommitted_def runGit_def Let_def split: sum.splits exec_error.splits)
  apply (simp add: getLastCommit_def runGit_def Let_def case_prod_beta
      split: sum.splits exec_error.splits option.splits)
  done

lemma logErr_no_query: "list_ex is_count_query (logErr err p msg) = False"
  by (simp add: logErr_def split: option.splits)

lemma probe_no_query:
  "list_ex is_count_query (snd (getBranch L w g p)) = False"
  "list_ex is_count_query (snd (probeRemote L w g p st)) = False"
  "list_ex is_count_query (snd (probeUncommitted L w g p st)) = False"
  "list_ex is_count_query (snd (probeLastCommit L w g p st)) = False"
     apply (simp add: query_events)
    apply (simp add: probeRemote_def case_prod_beta query_events split: option.splits)
   apply (simp add: probeUncommitted_def case_prod_beta query_events logErr_no_query)
  apply (simp add: probeLastCommit_def case_prod_beta query_events split: option.splits)
  done

lemma probeRemote_remote:
  "fst (fst (probeRemote L w g p st)) = fst (fst (getRemote L w g p))"
  by (simp add: probeRemote_def case_prod_beta split: option.splits)

lemma GetStatus_events_no_remote:
  assumes "fst (fst (getRemote L w g p)) = []"
  shows "list_ex is_count_query (snd (GetStatus L w g p)) = False"
  using assms
  by (simp add: GetStatus_def Let_def case_prod_beta probe_no_query probeRemote_remote
      probeCounts_def split: option.splits)

subsection \<open>The scanner\<close>

lemma NewScanner_concurrency: "0 < concurrency (NewScanner root c t)"
  by (simp add: NewScanner_def)

lemma scanProject_repository:
  assumes "Stat w (Join L dir ''.git'') = StatInfo True"
  shows "fst (scanProject L w s dir) =
           (Some \<lparr>Name = Base L dir, Path = dir, Language = [], Size = 0,
                   LastModified = zeroTime,
                   Git = fst (fst (GetStatus L w (gitClient s) dir))\<rparr>, None)"
  using assms by (simp add: scanProject_def Let_def case_prod_beta)

lemma scanProject_no_repository:
  assumes "Stat w (Join L dir ''.git'') = StatNotExist e
           \<or> Stat w (Join L dir ''.git'') = StatInfo False"
  shows "scanProject L w s dir = ((None, None), [StatCall (Join L dir ''.git'')])"
  using assms by (auto simp add: scanProject_def Let_def)

lemma scanProject_stat_error:
  assumes "Stat w (Join L dir ''.git'') = StatError e"
  shows "scanProject L w s dir = ((None, Some e), [StatCall (Join L dir ''.git'')])"
  using assms by (simp add: scanProject_def Let_def)

lemma scanProject_Some:
  assumes "fst (fst (scanProject L w s dir)) = Some P"
  shows "Path P = dir \<and> Stat w (Join L dir ''.git'') = StatInfo True
         \<and> snd (fst (scanProject L w s dir)) = None"
  using assms
  by (auto simp add: scanProject_def Let_def case_prod_beta split: stat_result.splits if_splits)

lemma worker_member:
  "P \<in> set (fst (worker L w s jobs)) \<longleftrightarrow>
     (\<exists>dir \<in> set jobs. fst (fst (scanProject L w s dir)) = Some P)"
proof (induction jobs)
  case Nil
  then show ?case by simp
next
  case (Cons dir jobs)
  show ?case
  proof (cases "fst (fst (scanProject L w s dir))")
    case None
    with Cons show ?thesis
      by (auto simp add: case_prod_beta split: prod.splits option.splits)
  next
    case (Some Q)
    from scanProject_Some[OF Some] Some Cons show ?thesis
      by (auto simp add: case_prod_beta split: prod.splits option.splits)
  qed
qed

lemma worker_errors_member:
  "e \<in> set (fst (snd (worker L w s jobs))) \<longleftrightarrow>
     (\<exists>dir \<in> set jobs. snd (fst (scanProject L w s dir)) = Some e)"
proof (induction jobs)
  case Nil
  then show ?case by simp
next
  case (Cons dir jobs)
  then show ?case
    by (cases "snd (fst (scanProject L w s dir))"; cases "fst (fst (scanProject L w s dir))")
       (auto simp add: case_prod_beta split: prod.splits option.splits)
qed

lemma Scan_projects:
  assumes "ReadDir w (rootDir s) = Inr entries" and "0 < concurrency s"
  shows "fst (fst (Scan L w s)) = fst (worker L w s (scan_dirs L s entries))"
    and "snd (fst (Scan L w s)) = None"
  using assms by (simp_all add: Scan_def Let_def case_prod_beta)

lemma Scan_member:
  assumes "ReadDir w (rootDir s) = Inr entries" and "0 < concurrency s"
  shows "P \<in> set (fst (fst (Scan L w s))) \<longleftrightarrow>
           (\<exists>dir \<in> set (scan_dirs L s entries). fst (fst (scanProject L w s dir)) = Some P)"
  by (simp add: Scan_projects(1)[OF assms] worker_member)

lemma stat_error_is_logged:
  assumes "ReadDir w (rootDir s) = Inr entries" and "0 < concurrency s"
    and "dir \<in> set (scan_dirs L s entries)"
    and "Stat w (Join L dir ''.git'') = StatError e"
  shows "Log ''scan error'' None e \<in> set (snd (Scan L w s))"
proof -
  have "snd (fst (scanProject L w s dir)) = Some e"
    by (simp add: scanProject_stat_error[OF assms(4)])
  with assms(3) have "e \<in> set (fst (snd (worker L w s (scan_dirs L s entries))))"
    unfolding worker_errors_member by (rule rev_bexI)
  with assms(1,2) show ?thesis
    by (simp add: Scan_def Let_def case_prod_beta)
qed

subsection \<open>The screens\<close>

lemma New_list_fields:
  "ready (NewProjectsListScreen U d b n) = False"
  "selectedIdx (NewProjectsListScreen U d b n) = 0"
  "filtering (NewProjectsListScreen U d b n) = False"
  "filterText (NewProjectsListScreen U d b n) = []"
  "scanning (NewProjectsListScreen U d b n) = False"
  "projects (NewProjectsListScreen U d b n) = []"
  "scanner (NewProjectsListScreen U d b n) = None"
  "Width (NewProjectsListScreen U d b n) = 0"
  "Height (NewProjectsListScreen U d b n) = 0"
  "Theme (NewProjectsListScreen U d b n) = styles_New U b"
  "AppName (NewProjectsListScreen U d b n) = n"
  by (simp_all add: NewProjectsListScreen_def NewBase_def ScreenBase.defs ProjectsListScreen.defs)

lemma New_detail_fields:
  "ProjectDetailScreen.ready (NewProjectDetailScreen U p b n) = False"
  "project (NewProjectDetailScreen U p b n) = p"
  "Width (NewProjectDetailScreen U p b n) = 0"
  "Height (NewProjectDetailScreen U p b n) = 0"
  by (simp_all add: NewProjectDetailScreen_def NewBase_def ScreenBase.defs ProjectDetailScreen.defs)

lemma filter_mode_key:
  assumes "filtering s" and "length k = 1"
  shows "Update L U s (KeyPressMsg k) = Inr (s\<lparr>filterText := filterText s @ k\<rparr>, None)"
  using assms by (auto simp add: Update_def handleFilterInput_def)

lemma filter_mode_backspace:
  assumes "filtering s"
  shows "Update L U s (KeyPressMsg ''backspace'') =
           Inr (s\<lparr>filterText := butlast (filterText s)\<rparr>, None)"
  using assms by (auto simp add: Update_def handleFilterInput_def butlast_conv_take)

lemma Updates_append:
  "Updates L U s (ms @ ns) =
     (case Updates L U s ms of Inl e \<Rightarrow> Inl e | Inr s' \<Rightarrow> Updates L U s' ns)"
  by (induction ms arbitrary: s) (auto split: sum.splits)

lemma typing_keys:
  assumes "filtering s" and "\<forall>k \<in> set ks. length k = 1"
  shows "Updates L U s (map KeyPressMsg ks) = Inr (s\<lparr>filterText := filterText s @ concat ks\<rparr>)"
  using assms
proof (induction ks arbitrary: s)
  case Nil
  then show ?case by simp
next
  case (Cons k ks)
  have "Updates L U (s\<lparr>filterText := filterText s @ k\<rparr>) (map KeyPressMsg ks)
        = Inr (s\<lparr>filterText := filterText s @ k\<rparr>
                 \<lparr>filterText := filterText (s\<lparr>filterText := filterText s @ k\<rparr>) @ concat ks\<rparr>)"
    using Cons.prems by (intro Cons.IH) simp_all
  with Cons.prems show ?case by (simp add: filter_mode_key)
qed

lemma backspaces:
  assumes "filtering s"
  shows "Updates L U s (replicate n (KeyPressMsg ''backspace'')) =
           Inr (s\<lparr>filterText := take (length (filterText s) - n) (filterText s)\<rparr>)"
  using assms
proof (induction n arbitrary: s)
  case 0
  then show ?case by simp
next
  case (Suc n)
  have "Updates L U (s\<lparr>filterText := butlast (filterText s)\<rparr>) (replicate n (KeyPressMsg ''backspace''))
        = Inr (s\<lparr>filterText := butlast (filterText s)\<rparr>
                 \<lparr>filterText := take (length (filterText (s\<lparr>filterText := butlast (filterText s)\<rparr>)) - n)
                                   (filterText (s\<lparr>filterText := butlast (filterText s)\<rparr>))\<rparr>)"
    using Suc.prems by (intro Suc.IH) simp
  with Suc.prems show ?case
    by (simp add: filter_mode_backspace butlast_conv_take min_def)
qed

lemma length_concat_keys: "\<forall>k \<in> set ks. length k = 1 \<Longrightarrow> length (concat ks) = length ks"
  by (induction ks) auto

text \<open>
  More generally, any keys that do not leave filter mode (a key whose name is longer
  than one byte, such as \<open>space\<close> or a multi-byte character, is ignored) followed by
  as many backspaces give back the state before.
\<close>

lemma filter_mode_any_key:
  assumes "filtering s" and "k \<noteq> ''esc''" and "k \<noteq> ''enter''"
  shows "\<exists>t. length t \<le> Suc (length (filterText s))
           \<and> Update L U s (KeyPressMsg k) = Inr (s\<lparr>filterText := t\<rparr>, None)"
proof (cases "k = ''backspace''")
  case True
  with assms(1) have "Update L U s (KeyPressMsg k) = Inr (s\<lparr>filterText := butlast (filterText s)\<rparr>, None)"
    by (simp add: filter_mode_backspace)
  then show ?thesis by (intro exI[of _ "butlast (filterText s)"]) simp
next
  case False
  show ?thesis
  proof (cases "length k = 1")
    case True
    with assms(1) have "Update L U s (KeyPressMsg k) = Inr (s\<lparr>filterText := filterText s @ k\<rparr>, None)"
      by (simp add: filter_mode_key)
    with True show ?thesis by (intro exI[of _ "filterText s @ k"]) simp
  next
    case len: False
    with assms False have "Update L U s (KeyPressMsg k) = Inr (s\<lparr>filterText := filterText s\<rparr>, None)"
      by (simp add: Update_def handleFilterInput_def)
    then show ?thesis by (intro exI[of _ "filterText s"]) simp
  qed
qed

lemma filter_mode_any_keys:
  assumes "filtering s" and "\<forall>k \<in> set ks. k \<noteq> ''esc'' \<and> k \<noteq> ''enter''"
  shows "\<exists>t. length t \<le> length (filterText s) + length ks
           \<and> Updates L U s (map KeyPressMsg ks) = Inr (s\<lparr>filterText := t\<rparr>)"
  using assms
proof (induction ks arbitrary: s)
  case Nil
  show ?case by (intro exI[of _ "filterText s"]) simp
next
  case (Cons k ks)
  from Cons.prems obtain t1 where t1: "length t1 \<le> Suc (length (filterText s))"
    and u: "Update L U s (KeyPressMsg k) = Inr (s\<lparr>filterText := t1\<rparr>, None)"
    using filter_mode_any_key[of s k L U] by auto
  from Cons.prems have "\<exists>t. length t \<le> length (filterText (s\<lparr>filterText := t1\<rparr>)) + length ks
      \<and> Updates L U (s\<lparr>filterText := t1\<rparr>) (map KeyPressMsg ks)
          = Inr (s\<lparr>filterText := t1\<rparr>\<lparr>filterText := t\<rparr>)"
    by (intro Cons.IH) simp_all
  then obtain t where "length t \<le> length t1 + length ks"
    and "Updates L U (s\<lparr>filterText := t1\<rparr>) (map KeyPressMsg ks) = Inr (s\<lparr>filterText := t\<rparr>)"
    by auto
  with t1 u show ?case by (intro exI[of _ t]) simp
qed

lemma any_keys_round_trip:
  assumes "filtering s" and "filterText s = []"
    and "\<forall>k \<in> set ks. k \<noteq> ''esc'' \<and> k \<noteq> ''enter''"
  shows "Updates L U s (map KeyPressMsg ks @ replicate (length ks) (KeyPressMsg ''backspace''))
           = Inr s"
proof -
  from filter_mode_any_keys[OF assms(1,3), of L U] assms(2)
  obtain t where t: "length t \<le> length ks"
    and u: "Updates L U s (map KeyPressMsg ks) = Inr (s\<lparr>filterText := t\<rparr>)"
    by auto
  have "Updates L U (s\<lparr>filterText := t\<rparr>) (replicate (length ks) (KeyPressMsg ''backspace''))
          = Inr (s\<lparr>filterText := t\<rparr>\<lparr>filterText :=
                   take (length (filterText (s\<lparr>filterText := t\<rparr>)) - length ks)
                     (filterText (s\<lparr>filterText := t\<rparr>))\<rparr>)"
    using assms(1) by (intro backspaces) simp
  with t assms(2) have "Updates L U (s\<lparr>filterText := t\<rparr>)
      (replicate (length ks) (KeyPressMsg ''backspace'')) = Inr s"
    by simp
  with u show ?thesis by (simp add: Updates_append)
qed

lemma Update_keeps_ready:
  assumes "\<not> is_WindowSizeMsg m" and "Update L U s m = Inr (s', c)"
  shows "ready s' = ready s"
proof (cases m)
  case (WindowSizeMsg w h)
  with assms(1) show ?thesis by simp
next
  case (KeyPressMsg k)
  with assms(2) show ?thesis
    by (auto simp add: Update_def handleFilterInput_def handleNormalInput_def Let_def
        split: if_splits option.splits)
next
  case (ScanCompleteMsg ps err)
  with assms(2) show ?thesis
    by (auto simp add: Update_def Let_def split: if_splits option.splits)
next
  case OtherMsg
  with assms(2) show ?thesis by (simp add: Update_def)
qed

lemma Update_no_panic:
  assumes "0 \<le> selectedIdx s"
  shows "\<exists>s' c. Update L U s m = Inr (s', c) \<and> 0 \<le> selectedIdx s'"
proof (cases m)
  case (WindowSizeMsg w h)
  with assms show ?thesis by (simp add: Update_def)
next
  case (KeyPressMsg k)
  with assms show ?thesis
    by (auto simp add: Update_def handleFilterInput_def handleNormalInput_def Let_def
        split: if_splits option.splits)
next
  case (ScanCompleteMsg ps err)
  with assms show ?thesis
    by (auto simp add: Update_def Let_def split: if_splits option.splits)
next
  case OtherMsg
  with assms show ?thesis by (simp add: Update_def)
qed

lemma Updates_no_panic:
  assumes "0 \<le> selectedIdx s"
  shows "\<exists>s'. Updates L U s ms = Inr s' \<and> 0 \<le> selectedIdx s'"
  using assms
proof (induction ms arbitrary: s)
  case Nil
  then show ?case by simp
next
  case (Cons m ms)
  from Update_no_panic[OF Cons.prems, of L U m]
  obtain s1 c where 1: "Update L U s m = Inr (s1, c)" and 2: "0 \<le> selectedIdx s1" by blast
  from Cons.IH[OF 2] 1 show ?case by simp
qed

lemma Updates_keep_ready:
  assumes "\<not> list_ex is_WindowSizeMsg ms" and "Updates L U s ms = Inr s'"
  shows "ready s' = ready s"
  using assms
proof (induction ms arbitrary: s)
  case Nil
  then show ?case by simp
next
  case (Cons m ms)
  from Cons.prems(2) obtain s1 c where 1: "Update L U s m = Inr (s1, c)"
    and 2: "Updates L U s1 ms = Inr s'"
    by (auto split: sum.splits)
  from Cons.prems(1) have "\<not> is_WindowSizeMsg m" and 3: "\<not> list_ex is_WindowSizeMsg ms" by simp_all
  with 1 have "ready s1 = ready s" using Update_keeps_ready by blast
  with Cons.IH[OF 3 2] show ?case by simp
qed

lemma DetailUpdate_keeps_ready:
  assumes "\<not> is_WindowSizeMsg m"
  shows "ProjectDetailScreen.ready (fst (DetailUpdate s m)) = ProjectDetailScreen.ready s"
  using assms by (cases m) (simp_all add: DetailUpdate_def)

lemma DetailUpdates_keep_ready:
  assumes "\<not> list_ex is_WindowSizeMsg ms"
  shows "ProjectDetailScreen.ready (DetailUpdates s ms) = ProjectDetailScreen.ready s"
  using assms by (induction ms arbitrary: s) (simp_all add: DetailUpdate_keeps_ready)

lemma filteredProjects_selectedIdx [simp]:
  "filteredProjects L (s\<lparr>selectedIdx := i\<rparr>) = filteredProjects L s"
  by (simp add: filteredProjects_def)

text \<open>The scan result, the other path that changes the filtered list, does clamp.\<close>

lemma scan_result_clamps:
  assumes "0 \<le> selectedIdx s" and "Update L U s (ScanCompleteMsg ps err) = Inr (s', c)"
  shows "selection_in_range L s'"
  using assms
  by (auto simp add: Update_def Let_def selection_in_range_def split: option.splits if_splits)

lemma formatGitStatus_zero: "formatGitStatus zero_GitStatus t = Success t glyph_clean"
  by (simp add: formatGitStatus_def zero_GitStatus_def StatusType_defs)

subsection \<open>The examples, evaluated\<close>

lemma sample_lib_simps [simp]:
  "TrimSpace sample_lib = ascii_TrimSpace"
  "ToLower sample_lib = ascii_ToLower"
  "Atoi sample_lib = decimal_Atoi"
  "ParseInt sample_lib = decimal_Atoi"
  "Join sample_lib = slash_Join"
  "Base sample_lib = slash_Base"
  by (simp_all add: sample_lib_def)

lemma sample_trim [simp]:
  "ascii_TrimSpace out_branch = ''main''"
  "ascii_TrimSpace out_status = ''M a.go\<newline> M b.go''"
  "ascii_TrimSpace out_log = ''init|ann|1700000000''"
  by (simp_all add: ascii_TrimSpace_def isSpace_def newline_def out_branch_def out_status_def
      out_log_def)

lemma sample_split [simp]:
  "length (Split ''M a.go\<newline> M b.go'' (CHR 0x0A)) = 2"
  "SplitN ''init|ann|1700000000'' (CHR ''|'') 3 = [''init'', ''ann'', ''1700000000'']"
  by (simp_all add: newline_def numeral_3_eq_3)

lemma sample_number [simp]: "decimal_Atoi ''1700000000'' = (1700000000, None)"
  by (simp add: decimal_Atoi_def)

lemma natToStr_0: "natToStr 0 = ''0''"
  by code_simp

lemma lower_names:
  "ascii_ToLower ''alpha'' = ''alpha''"
  "ascii_ToLower ''Beta'' = ''beta''"
  "ascii_ToLower ''gamma'' = ''gamma''"
  "ascii_ToLower ''e'' = ''e''"
  by code_simp+

lemma no_commits_GetStatus:
  "GetStatus sample_lib os_no_commits g ''/src/new'' =
     ((zero_GitStatus, Some ''getting branch: git rev-parse: fatal: bad revision''),
      [Exec ''/src/new'' [''rev-parse'', ''--abbrev-ref'', ''HEAD'']])"
  by (simp add: GetStatus_def getBranch_def runGit_def os_no_commits_def)

lemma no_upstream_queries:
  "fst (getBranch sample_lib os_no_upstream g ''/src/app'') = (''main'', None)"
  "fst (getRemote sample_lib os_no_upstream g ''/src/app'') =
     ([], Some ''git rev-parse: fatal: no upstream configured for branch'')"
  "fst (getUncommitted sample_lib os_no_upstream g ''/src/app'') = (2, None)"
  "fst (getLastCommit sample_lib os_no_upstream g ''/src/app'') =
     (''init'', ''ann'', 1700000000, None)"
     apply (simp add: getBranch_def runGit_def os_no_upstream_def)
    apply (simp add: getRemote_def runGit_def os_no_upstream_def upstream_ref_def)
   apply (simp add: getUncommitted_def runGit_def os_no_upstream_def)
  apply (simp add: getLastCommit_def runGit_def os_no_upstream_def Unix_def)
  done

lemma no_upstream_GetStatus:
  "fst (GetStatus sample_lib os_no_upstream g ''/src/app'') =
     (\<lparr>Branch = ''main'', Remote = [], Uncommitted = 2, Unpushed = 0, Unpulled = 0,
       LastCommitMsg = ''init'', LastCommitTime = 1700000000, LastCommitAuthor = ''ann'',
       Status = StatusDirty\<rparr>, None)"
  using no_upstream_queries[of g]
  by (simp add: GetStatus_def probeRemote_def probeUncommitted_def probeCounts_def
      probeLastCommit_def zero_GitStatus_def Let_def case_prod_beta split: option.splits)

lemma empty_subject_queries:
  "fst (getBranch sample_lib os_empty_subject g ''/src/app'') = (''main'', None)"
  "fst (getRemote sample_lib os_empty_subject g ''/src/app'') =
     ([], Some ''git rev-parse: fatal: no upstream configured for branch'')"
  "fst (getUncommitted sample_lib os_empty_subject g ''/src/app'') = (2, None)"
  "fst (getLastCommit sample_lib os_empty_subject g ''/src/app'') =
     ([], ''ann'', 1700000000, None)"
proof -
  have t: "ascii_TrimSpace out_log_empty_subject = ''|ann|1700000000''"
    by (simp add: ascii_TrimSpace_def isSpace_def out_log_empty_subject_def)
  have s: "SplitN ''|ann|1700000000'' (CHR ''|'') 3 = [[], ''ann'', ''1700000000'']"
    by (simp add: numeral_3_eq_3)
  show "fst (getBranch sample_lib os_empty_subject g ''/src/app'') = (''main'', None)"
    by (simp add: getBranch_def runGit_def os_empty_subject_def os_no_upstream_def)
  show "fst (getRemote sample_lib os_empty_subject g ''/src/app'') =
     ([], Some ''git rev-parse: fatal: no upstream configured for branch'')"
    by (simp add: getRemote_def runGit_def os_empty_subject_def os_no_upstream_def upstream_ref_def)
  show "fst (getUncommitted sample_lib os_empty_subject g ''/src/app'') = (2, None)"
    by (simp add: getUncommitted_def runGit_def os_empty_subject_def os_no_upstream_def)
  show "fst (getLastCommit sample_lib os_empty_subject g ''/src/app'') =
     ([], ''ann'', 1700000000, None)"
    by (simp add: getLastCommit_def runGit_def os_empty_subject_def t s Unix_def)
qed

lemma empty_subject_GetStatus:
  "fst (GetStatus sample_lib os_empty_subject g ''/src/app'') = (commit_without_subject, None)"
  using empty_subject_queries[of g]
  by (simp add: GetStatus_def probeRemote_def probeUncommitted_def probeCounts_def
      probeLastCommit_def zero_GitStatus_def Let_def case_prod_beta commit_without_subject_def
      split: option.splits)

lemma wide_subject_facts:
  "spec_characters wide_subject = 12"
  "length wide_subject = 36"
  "take 27 wide_subject = concat (replicate 9 [CHR 0xE6, CHR 0x97, CHR 0xA5])"
  "wide_subject \<noteq> []"
  by (simp_all add: wide_subject_def spec_characters_def eval_nat_numeral)

lemma wide_subject_cut: "take 27 wide_subject @ ''...'' \<noteq> wide_subject"
proof
  assume "take 27 wide_subject @ ''...'' = wide_subject"
  then have "length (take 27 wide_subject @ ''...'') = length wide_subject" by simp
  then show False by (simp add: wide_subject_facts(2))
qed

lemma sample_scanner_fields:
  "rootDir sample_scanner = ''/src''" "0 < concurrency sample_scanner"
  "gitClient sample_scanner = NewGitClient 0"
  by (simp_all add: sample_scanner_def NewScanner_def)

lemma no_commits_world:
  "ReadDir os_no_commits ''/src'' = Inr [DirEntry ''new'' True]"
  "scan_dirs sample_lib sample_scanner [DirEntry ''new'' True] = [''/src/new'']"
  "snd (fst (getBranch sample_lib os_no_commits g ''/src/new'')) = Some ''git rev-parse: fatal: bad revision''"
  by (simp_all add: os_no_commits_def scan_dirs_def sample_scanner_fields slash_Join_def
      getBranch_def runGit_def)

lemma no_upstream_world:
  "ReadDir os_no_upstream ''/src'' = Inr [DirEntry ''app'' True, DirEntry ''notes.txt'' False]"
  "scan_dirs sample_lib sample_scanner [DirEntry ''app'' True, DirEntry ''notes.txt'' False]
     = [''/src/app'']"
  "Stat os_no_upstream (slash_Join ''/src/app'' ''.git'') = StatInfo True"
  by (simp_all add: os_no_upstream_def scan_dirs_def sample_scanner_fields slash_Join_def)

lemma no_upstream_Scan:
  "fst (Scan sample_lib os_no_upstream sample_scanner) =
     ([\<lparr>Name = ''app'', Path = ''/src/app'', Language = [], Size = 0, LastModified = zeroTime,
        Git = \<lparr>Branch = ''main'', Remote = [], Uncommitted = 2, Unpushed = 0, Unpulled = 0,
               LastCommitMsg = ''init'', LastCommitTime = 1700000000,
               LastCommitAuthor = ''ann'', Status = StatusDirty\<rparr>\<rparr>], None)"
proof -
  have h2: "Stat os_no_upstream (Join sample_lib ''/src/app'' ''.git'') = StatInfo True"
    by (simp add: no_upstream_world)
  have h3: "ReadDir os_no_upstream (rootDir sample_scanner)
              = Inr [DirEntry ''app'' True, DirEntry ''notes.txt'' False]"
    by (simp add: no_upstream_world sample_scanner_fields)
  show ?thesis
    using scanProject_repository[OF h2, of sample_scanner]
      Scan_projects[OF h3 sample_scanner_fields(2), of sample_lib]
    by (simp add: prod_eq_iff no_upstream_world no_upstream_GetStatus case_prod_beta
        slash_Base_def split: prod.splits option.splits)
qed

lemma sample_screen_fields:
  "ready sample_screen = False"
  "selectedIdx sample_screen = 0"
  "filtering sample_screen = False"
  "filterText sample_screen = []"
  "scanning sample_screen = False"
  "projects sample_screen = []"
  "scanner sample_screen = Some sample_scanner"
  "Theme sample_screen = plain_theme"
  "AppName sample_screen = ''projector''"
  by (simp_all add: sample_screen_def SetScanner_def New_list_fields plain_ui_def)

lemma scanning_filter_reachable:
  "Init sample_screen = (sample_screen\<lparr>scanning := True\<rparr>, Some (scanCmd sample_scanner))"
  "Update L U (sample_screen\<lparr>scanning := True\<rparr>) (KeyPressMsg ''/'')
     = Inr (sample_screen\<lparr>scanning := True, filtering := True\<rparr>, None)"
  by (simp_all add: Init_def Update_def handleNormalInput_def sample_screen_fields Let_def
      sample_screen_def SetScanner_def NewProjectsListScreen_def ScreenBase.defs ProjectsListScreen.defs)

lemma three_projects_filtered:
  "filter (\<lambda>p. Contains (ascii_ToLower (Name p)) ''e'') three_projects = [named ''Beta'']"
  by (simp add: three_projects_def named_def lower_names)

lemma reach_browsing:
  "Updates sample_lib plain_ui sample_screen
     [WindowSizeMsg 80 24, ScanCompleteMsg three_projects None,
      KeyPressMsg ''j'', KeyPressMsg ''j'', KeyPressMsg ''/'']
   = Inr (browsing\<lparr>filtering := True\<rparr>)"
proof -
  let ?s1 = "sample_screen\<lparr>Width := 80, Height := 24, ready := True\<rparr>"
  let ?s2 = "?s1\<lparr>scanning := False, projects := three_projects\<rparr>"
  have 1: "Update sample_lib plain_ui sample_screen (WindowSizeMsg 80 24) = Inr (?s1, None)"
    by (simp add: Update_def)
  have 2: "Update sample_lib plain_ui ?s1 (ScanCompleteMsg three_projects None) = Inr (?s2, None)"
    by (simp add: Update_def Let_def filteredProjects_def sample_screen_fields three_projects_def)
  have 3: "Update sample_lib plain_ui ?s2 (KeyPressMsg ''j'') = Inr (?s2\<lparr>selectedIdx := 1\<rparr>, None)"
    by (simp add: Update_def handleNormalInput_def Let_def filteredProjects_def
        sample_screen_fields three_projects_def)
  have 4: "Update sample_lib plain_ui (?s2\<lparr>selectedIdx := 1\<rparr>) (KeyPressMsg ''j'')
             = Inr (?s2\<lparr>selectedIdx := 2\<rparr>, None)"
    by (simp add: Update_def handleNormalInput_def Let_def filteredProjects_def
        sample_screen_fields three_projects_def)
  have 5: "Update sample_lib plain_ui (?s2\<lparr>selectedIdx := 2\<rparr>) (KeyPressMsg ''/'')
             = Inr (?s2\<lparr>selectedIdx := 2, filtering := True, filterText := []\<rparr>, None)"
    by (simp add: Update_def handleNormalInput_def Let_def sample_screen_fields)
  have 6: "?s2\<lparr>selectedIdx := 2, filtering := True, filterText := []\<rparr> = browsing\<lparr>filtering := True\<rparr>"
    by (simp add: browsing_def sample_screen_def SetScanner_def NewProjectsListScreen_def
        ScreenBase.defs ProjectsListScreen.defs)
  from 1 2 3 4 5 6 show ?thesis by simp
qed

lemma browsing_fields:
  "filtering browsing = False" "filterText browsing = []" "selectedIdx browsing = 2"
  "projects browsing = three_projects" "scanning browsing = False"
  by (simp_all add: browsing_def sample_screen_fields)

subsection \<open>The status derivation (C1, C2, C10)\<close>

text \<open>
  Claim C1, as amended. For every probe whose branch query succeeds and whose upstream
  query does not succeed with a blank name, the stored \<open>Status\<close> is the value of the
  derivation table, where the upstream is absent when \<open>Remote\<close> is empty: absent
  gives \<open>noRemote\<close> for \<open>uncommitted = 0\<close> and \<open>dirty\<close> otherwise, then
  \<open>dirty\<close>, \<open>diverged\<close>, \<open>ahead\<close>, \<open>behind\<close>, \<open>clean\<close> in this order. The
  stored value is one of the six kinds, and the six kinds are pairwise different, so
  exactly one applies.
\<close>

theorem GetStatus_status_matches_table:
  assumes "snd (fst (getBranch L w g p)) = None"
    and "fst (getRemote L w g p) \<noteq> ([], None)"
  shows "Status (fst (fst (GetStatus L w g p))) =
           spec_StatusKind (Remote (fst (fst (GetStatus L w g p))) = [])
             (Uncommitted (fst (fst (GetStatus L w g p))))
             (Unpushed (fst (fst (GetStatus L w g p))))
             (Unpulled (fst (fst (GetStatus L w g p))))
         \<and> Status (fst (fst (GetStatus L w g p))) \<in> set StatusKinds
         \<and> distinct StatusKinds"
  using GetStatus_status_by_query[OF assms(1)] GetStatus_remote_empty_iff[OF assms]
    GetStatus_kind[of L w g p] StatusKinds_distinct
  by simp

text \<open>
  The claim as stated, for every repository probed, fails on a repository without any
  commit: the branch query fails, the probe returns the zero \<open>GitStatus\<close>, whose
  \<open>Remote\<close> is empty and whose \<open>Status\<close> is \<open>clean\<close>, where the table gives
  \<open>noRemote\<close>.
\<close>

theorem GetStatus_status_matches_table_counterexample:
  "Status (fst (fst (GetStatus sample_lib os_no_commits (NewGitClient 0) ''/src/new''))) \<noteq>
     spec_StatusKind (Remote (fst (fst (GetStatus sample_lib os_no_commits (NewGitClient 0) ''/src/new''))) = [])
       (Uncommitted (fst (fst (GetStatus sample_lib os_no_commits (NewGitClient 0) ''/src/new''))))
       (Unpushed (fst (fst (GetStatus sample_lib os_no_commits (NewGitClient 0) ''/src/new''))))
       (Unpulled (fst (fst (GetStatus sample_lib os_no_commits (NewGitClient 0) ''/src/new''))))"
  by (simp add: no_commits_GetStatus zero_GitStatus_def spec_StatusKind_def StatusType_defs)

theorem GetStatus_status_matches_table_witness:
  "snd (fst (getBranch sample_lib os_no_upstream (NewGitClient 0) ''/src/app'')) = None
   \<and> fst (getRemote sample_lib os_no_upstream (NewGitClient 0) ''/src/app'') \<noteq> ([], None)
   \<and> Status (fst (fst (GetStatus sample_lib os_no_upstream (NewGitClient 0) ''/src/app''))) = StatusDirty
   \<and> spec_StatusKind True 2 0 0 = StatusDirty"
proof -
  have h1: "snd (fst (getBranch sample_lib os_no_upstream (NewGitClient 0) ''/src/app'')) = None"
    by (simp add: no_upstream_queries)
  have h2: "fst (getRemote sample_lib os_no_upstream (NewGitClient 0) ''/src/app'') \<noteq> ([], None)"
    by (simp add: no_upstream_queries)
  from GetStatus_status_matches_table[OF h1 h2] h1 h2 show ?thesis
    by (simp add: no_upstream_GetStatus)
qed

text \<open>
  Claim C2. For every \<open>GitStatus\<close> the probe returns, if \<open>Remote\<close> is empty then
  \<open>Unpushed\<close> and \<open>Unpulled\<close> are zero, and the probe has started neither of the two
  \<open>rev-list\<close> count queries.
\<close>

theorem GetStatus_no_remote_no_counts:
  "Remote (fst (fst (GetStatus L w g p))) = [] \<longrightarrow>
     Unpushed (fst (fst (GetStatus L w g p))) = 0
     \<and> Unpulled (fst (fst (GetStatus L w g p))) = 0
     \<and> \<not> list_ex is_count_query (snd (GetStatus L w g p))"
proof (cases "snd (fst (getBranch L w g p))")
  case None
  show ?thesis
    using GetStatus_events_no_remote[of L w g p]
    by (simp add: GetStatus_ok_fields[OF None])
next
  case (Some e)
  show ?thesis
    by (simp add: GetStatus_branch_err[OF Some] zero_GitStatus_def probe_no_query)
qed

theorem GetStatus_no_remote_no_counts_witness:
  "Remote (fst (fst (GetStatus sample_lib os_no_upstream (NewGitClient 0) ''/src/app''))) = []
   \<and> Unpushed (fst (fst (GetStatus sample_lib os_no_upstream (NewGitClient 0) ''/src/app''))) = 0
   \<and> Unpulled (fst (fst (GetStatus sample_lib os_no_upstream (NewGitClient 0) ''/src/app''))) = 0
   \<and> \<not> list_ex is_count_query (snd (GetStatus sample_lib os_no_upstream (NewGitClient 0) ''/src/app''))"
  using GetStatus_no_remote_no_counts[of sample_lib os_no_upstream "NewGitClient 0" "''/src/app''"]
  by (simp add: no_upstream_GetStatus)

text \<open>
  Claim C10. When the branch query fails, \<open>GetStatus\<close> returns an error together with
  the zero \<open>GitStatus\<close>; its \<open>Status\<close> is \<open>StatusClean\<close>, which is not
  \<open>StatusNoRemote\<close>; the scanner (with at least one worker, as \<open>NewScanner\<close>
  builds it) still returns the project with this status, and the row shows the glyph
  of a clean repository.
\<close>

theorem malformed_repository_is_clean:
  assumes "snd (fst (getBranch L w (gitClient s) dir)) = Some e"
    and "Stat w (Join L dir ''.git'') = StatInfo True"
    and "ReadDir w (rootDir s) = Inr entries"
    and "0 < concurrency s"
    and "dir \<in> set (scan_dirs L s entries)"
  shows "fst (GetStatus L w (gitClient s) dir) = (zero_GitStatus, Some (''getting branch: '' @ e))
    \<and> Status zero_GitStatus = StatusClean
    \<and> StatusClean \<noteq> StatusNoRemote
    \<and> \<lparr>Name = Base L dir, Path = dir, Language = [], Size = 0, LastModified = zeroTime,
        Git = zero_GitStatus\<rparr> \<in> set (fst (fst (Scan L w s)))
    \<and> formatGitStatus zero_GitStatus t = Success t glyph_clean"
proof -
  have g: "fst (GetStatus L w (gitClient s) dir) = (zero_GitStatus, Some (''getting branch: '' @ e))"
    by (simp add: GetStatus_branch_err[OF assms(1)])
  have "fst (fst (scanProject L w s dir)) =
          Some \<lparr>Name = Base L dir, Path = dir, Language = [], Size = 0,
                 LastModified = zeroTime, Git = zero_GitStatus\<rparr>"
    by (simp add: scanProject_repository[OF assms(2)] g)
  with assms(5) have m: "\<lparr>Name = Base L dir, Path = dir, Language = [], Size = 0,
      LastModified = zeroTime, Git = zero_GitStatus\<rparr> \<in> set (fst (fst (Scan L w s)))"
    unfolding Scan_member[OF assms(3,4)] by (rule rev_bexI)
  from g m show ?thesis
    by (simp add: formatGitStatus_zero) (simp add: zero_GitStatus_def StatusType_defs)
qed

theorem malformed_repository_is_clean_witness:
  "snd (fst (getBranch sample_lib os_no_commits (gitClient sample_scanner) ''/src/new''))
     = Some ''git rev-parse: fatal: bad revision''
   \<and> fst (GetStatus sample_lib os_no_commits (gitClient sample_scanner) ''/src/new'')
     = (zero_GitStatus, Some ''getting branch: git rev-parse: fatal: bad revision'')
   \<and> fst (fst (Scan sample_lib os_no_commits sample_scanner))
     = [\<lparr>Name = ''new'', Path = ''/src/new'', Language = [], Size = 0,
         LastModified = zeroTime, Git = zero_GitStatus\<rparr>]
   \<and> \<lparr>Name = Base sample_lib ''/src/new'', Path = ''/src/new'', Language = [], Size = 0,
        LastModified = zeroTime, Git = zero_GitStatus\<rparr>
       \<in> set (fst (fst (Scan sample_lib os_no_commits sample_scanner)))
   \<and> formatGitStatus zero_GitStatus plain_theme = glyph_clean"
proof -
  have h1: "snd (fst (getBranch sample_lib os_no_commits (gitClient sample_scanner) ''/src/new''))
     = Some ''git rev-parse: fatal: bad revision''"
    by (simp add: no_commits_world)
  have h2: "Stat os_no_commits (Join sample_lib ''/src/new'' ''.git'') = StatInfo True"
    by (simp add: os_no_commits_def slash_Join_def)
  have h3: "ReadDir os_no_commits (rootDir sample_scanner) = Inr [DirEntry ''new'' True]"
    by (simp add: no_commits_world sample_scanner_fields)
  have h4: "0 < concurrency sample_scanner"
    by (simp add: sample_scanner_fields)
  have h5: "''/src/new'' \<in> set (scan_dirs sample_lib sample_scanner [DirEntry ''new'' True])"
    by (simp add: no_commits_world)
  have sc: "fst (fst (Scan sample_lib os_no_commits sample_scanner))
     = [\<lparr>Name = ''new'', Path = ''/src/new'', Language = [], Size = 0,
         LastModified = zeroTime, Git = zero_GitStatus\<rparr>]"
    using scanProject_repository[OF h2, of sample_scanner]
    by (simp add: Scan_projects(1)[OF h3 h4] no_commits_world no_commits_GetStatus
        case_prod_beta slash_Base_def split: prod.splits option.splits)
  from malformed_repository_is_clean[OF h1 h2 h3 h4 h5, of plain_theme] h1 sc show ?thesis
    by (simp add: plain_theme_def)
qed

subsection \<open>The scan (C5, C6)\<close>

text \<open>
  Claim C5. If reading the root directory fails, \<open>Scan\<close> returns that error with an
  empty project list, and the only effect is the attempt to read the root: no file is
  inspected and no git process is started. If reading the root succeeds, \<open>Scan\<close>
  returns no error, whatever the probes do.
\<close>

theorem Scan_root_failure:
  "(ReadDir w (rootDir s) = Inl err \<longrightarrow>
      Scan L w s = (([], Some err), [ReadDirCall (rootDir s)]))
   \<and> (ReadDir w (rootDir s) = Inr entries \<longrightarrow> snd (fst (Scan L w s)) = None)"
proof (cases "ReadDir w (rootDir s)")
  case (Inl e)
  then show ?thesis by (simp add: Scan_def)
next
  case (Inr es)
  then show ?thesis by (simp add: Scan_def Let_def case_prod_beta)
qed

theorem Scan_root_failure_witness:
  "ReadDir os_unreadable (rootDir sample_scanner) = Inl ''permission denied''
   \<and> Scan sample_lib os_unreadable sample_scanner
       = (([], Some ''permission denied''), [ReadDirCall ''/src''])
   \<and> ReadDir os_no_upstream (rootDir sample_scanner)
       = Inr [DirEntry ''app'' True, DirEntry ''notes.txt'' False]
   \<and> snd (fst (Scan sample_lib os_no_upstream sample_scanner)) = None"
  using Scan_root_failure[where w = os_unreadable and s = sample_scanner
      and err = "''permission denied''" and L = sample_lib]
    Scan_root_failure[where w = os_no_upstream and s = sample_scanner and L = sample_lib
      and entries = "[DirEntry ''app'' True, DirEntry ''notes.txt'' False]"]
  by (simp add: os_unreadable_def no_upstream_world sample_scanner_fields)

text \<open>
  Claim C6, as amended. For every directory under the root whose \<open>.git\<close> is a
  directory, the project is in the scan result with the status the probe returned,
  whatever failed in the probe, and \<open>Scan\<close> returns no error. The fields whose
  query failed are zero: all of them if the branch query failed; otherwise the remote
  and both counts if the upstream query failed, and then the status is \<open>noRemote\<close>
  when nothing is uncommitted and \<open>dirty\<close> otherwise; the uncommitted count and the
  last-commit fields if their queries failed. A directory whose \<open>.git\<close> is not a
  directory yields no project; when \<open>.git\<close> is missing or is a regular file this
  leaves no error and no log entry.
\<close>

theorem repositories_never_dropped:
  assumes "ReadDir w (rootDir s) = Inr entries"
    and "0 < concurrency s"
    and "dir \<in> set (scan_dirs L s entries)"
  shows
    "(Stat w (Join L dir ''.git'') = StatInfo True \<longrightarrow>
        \<lparr>Name = Base L dir, Path = dir, Language = [], Size = 0, LastModified = zeroTime,
         Git = fst (fst (GetStatus L w (gitClient s) dir))\<rparr> \<in> set (fst (fst (Scan L w s)))
        \<and> snd (fst (Scan L w s)) = None)
     \<and> (snd (fst (getBranch L w (gitClient s) dir)) \<noteq> None \<longrightarrow>
          fst (fst (GetStatus L w (gitClient s) dir)) = zero_GitStatus)
     \<and> (snd (fst (getBranch L w (gitClient s) dir)) = None
        \<and> snd (fst (getRemote L w (gitClient s) dir)) \<noteq> None \<longrightarrow>
          Status (fst (fst (GetStatus L w (gitClient s) dir))) =
            (if Uncommitted (fst (fst (GetStatus L w (gitClient s) dir))) = 0
             then StatusNoRemote else StatusDirty)
          \<and> Remote (fst (fst (GetStatus L w (gitClient s) dir))) = []
          \<and> Unpushed (fst (fst (GetStatus L w (gitClient s) dir))) = 0
          \<and> Unpulled (fst (fst (GetStatus L w (gitClient s) dir))) = 0)
     \<and> (snd (fst (getBranch L w (gitClient s) dir)) = None
        \<and> snd (fst (getUncommitted L w (gitClient s) dir)) \<noteq> None \<longrightarrow>
          Uncommitted (fst (fst (GetStatus L w (gitClient s) dir))) = 0)
     \<and> (snd (fst (getBranch L w (gitClient s) dir)) = None
        \<and> snd (snd (snd (fst (getLastCommit L w (gitClient s) dir)))) \<noteq> None \<longrightarrow>
          LastCommitMsg (fst (fst (GetStatus L w (gitClient s) dir))) = []
          \<and> LastCommitAuthor (fst (fst (GetStatus L w (gitClient s) dir))) = []
          \<and> LastCommitTime (fst (fst (GetStatus L w (gitClient s) dir))) = zeroTime)
     \<and> (Stat w (Join L dir ''.git'') \<noteq> StatInfo True \<longrightarrow>
          Path P = dir \<longrightarrow> P \<notin> set (fst (fst (Scan L w s))))
     \<and> (Stat w (Join L dir ''.git'') = StatNotExist e
          \<or> Stat w (Join L dir ''.git'') = StatInfo False \<longrightarrow>
          scanProject L w s dir = ((None, None), [StatCall (Join L dir ''.git'')]))"
proof -
  have a: "\<lparr>Name = Base L dir, Path = dir, Language = [], Size = 0, LastModified = zeroTime,
         Git = fst (fst (GetStatus L w (gitClient s) dir))\<rparr> \<in> set (fst (fst (Scan L w s)))"
    if "Stat w (Join L dir ''.git'') = StatInfo True"
  proof -
    have "fst (fst (scanProject L w s dir)) =
            Some \<lparr>Name = Base L dir, Path = dir, Language = [], Size = 0,
                   LastModified = zeroTime,
                   Git = fst (fst (GetStatus L w (gitClient s) dir))\<rparr>"
      by (simp add: scanProject_repository[OF that])
    with assms(3) show ?thesis
      unfolding Scan_member[OF assms(1,2)] by (rule rev_bexI)
  qed
  have b: "P \<notin> set (fst (fst (Scan L w s)))"
    if "Stat w (Join L dir ''.git'') \<noteq> StatInfo True" and "Path P = dir"
    using that scanProject_Some[of L w s _ P]
    by (auto simp add: Scan_member[OF assms(1,2)])
  have c: "fst (fst (GetStatus L w (gitClient s) dir)) = zero_GitStatus"
    if "snd (fst (getBranch L w (gitClient s) dir)) \<noteq> None"
    using that GetStatus_branch_err[of L w "gitClient s" dir] by auto
  note d = GetStatus_upstream_failed[of L w "gitClient s" dir]
  note f = GetStatus_failed_queries_zero[of L w "gitClient s" dir]
  note g = scanProject_no_repository[of w L dir e s]
  show ?thesis
    apply (intro conjI impI)
    using a Scan_projects(2)[OF assms(1,2)] b c d f g
                apply blast+
    done
qed

text \<open>
  The claim as stated fails where the upstream query fails and files are modified: the
  project is returned with status \<open>dirty\<close>, not \<open>noRemote\<close>.
\<close>

theorem repositories_never_dropped_counterexample:
  "snd (fst (getRemote sample_lib os_no_upstream (gitClient sample_scanner) ''/src/app''))
     = Some ''git rev-parse: fatal: no upstream configured for branch''
   \<and> fst (fst (Scan sample_lib os_no_upstream sample_scanner)) =
       [\<lparr>Name = ''app'', Path = ''/src/app'', Language = [], Size = 0, LastModified = zeroTime,
         Git = \<lparr>Branch = ''main'', Remote = [], Uncommitted = 2, Unpushed = 0, Unpulled = 0,
                LastCommitMsg = ''init'', LastCommitTime = 1700000000,
                LastCommitAuthor = ''ann'', Status = StatusDirty\<rparr>\<rparr>]
   \<and> StatusDirty \<noteq> StatusNoRemote"
  by (simp add: no_upstream_queries no_upstream_Scan StatusType_defs)

theorem repositories_never_dropped_witness:
  "ReadDir os_no_upstream (rootDir sample_scanner)
     = Inr [DirEntry ''app'' True, DirEntry ''notes.txt'' False]
   \<and> 0 < concurrency sample_scanner
   \<and> ''/src/app'' \<in> set (scan_dirs sample_lib sample_scanner
                            [DirEntry ''app'' True, DirEntry ''notes.txt'' False])
   \<and> Stat os_no_upstream (Join sample_lib ''/src/app'' ''.git'') = StatInfo True
   \<and> \<lparr>Name = Base sample_lib ''/src/app'', Path = ''/src/app'', Language = [], Size = 0,
        LastModified = zeroTime,
        Git = fst (fst (GetStatus sample_lib os_no_upstream (gitClient sample_scanner) ''/src/app''))\<rparr>
       \<in> set (fst (fst (Scan sample_lib os_no_upstream sample_scanner)))
   \<and> Status (fst (fst (GetStatus sample_lib os_no_upstream (gitClient sample_scanner) ''/src/app'')))
       = StatusDirty"
proof -
  have h1: "ReadDir os_no_upstream (rootDir sample_scanner)
              = Inr [DirEntry ''app'' True, DirEntry ''notes.txt'' False]"
    by (simp add: no_upstream_world sample_scanner_fields)
  have h2: "0 < concurrency sample_scanner" by (simp add: sample_scanner_fields)
  have h3: "''/src/app'' \<in> set (scan_dirs sample_lib sample_scanner
                            [DirEntry ''app'' True, DirEntry ''notes.txt'' False])"
    by (simp add: no_upstream_world)
  have h4: "Stat os_no_upstream (Join sample_lib ''/src/app'' ''.git'') = StatInfo True"
    by (simp add: no_upstream_world)
  from repositories_never_dropped[OF h1 h2 h3] h1 h2 h3 h4 show ?thesis
    by (simp add: no_upstream_GetStatus)
qed

subsection \<open>The list and detail screens (C3, C4, C7, C8, C9)\<close>

text \<open>
  Claim C3, on the trace of the filter-narrowing scenario. After a scan that found
  \<open>alpha\<close>, \<open>Beta\<close> and \<open>gamma\<close>, two presses of \<open>j\<close> and \<open>/\<close>, the
  selection is 2 and lies in the interval. Typing \<open>e\<close> narrows the filtered list to
  \<open>Beta\<close> alone; the selection stays 2, outside \<open>[0, 0]\<close>: the filter keys do not
  clamp it.
\<close>

theorem filter_narrowing_leaves_selection:
  "Updates sample_lib plain_ui sample_screen
     [WindowSizeMsg 80 24, ScanCompleteMsg three_projects None,
      KeyPressMsg ''j'', KeyPressMsg ''j'', KeyPressMsg ''/'']
     = Inr (browsing\<lparr>filtering := True\<rparr>)
   \<and> selection_in_range sample_lib (browsing\<lparr>filtering := True\<rparr>)
   \<and> Update sample_lib plain_ui (browsing\<lparr>filtering := True\<rparr>) (KeyPressMsg ''e'')
       = Inr (browsing\<lparr>filtering := True, filterText := ''e''\<rparr>, None)
   \<and> filteredProjects sample_lib (browsing\<lparr>filtering := True, filterText := ''e''\<rparr>)
       = [named ''Beta'']
   \<and> selectedIdx (browsing\<lparr>filtering := True, filterText := ''e''\<rparr>) = 2
   \<and> \<not> selection_in_range sample_lib (browsing\<lparr>filtering := True, filterText := ''e''\<rparr>)"
proof -
  have a: "selection_in_range sample_lib (browsing\<lparr>filtering := True\<rparr>)"
    by (simp add: selection_in_range_def filteredProjects_def browsing_fields three_projects_def)
  have b: "Update sample_lib plain_ui (browsing\<lparr>filtering := True\<rparr>) (KeyPressMsg ''e'')
       = Inr (browsing\<lparr>filtering := True, filterText := ''e''\<rparr>, None)"
    by (simp add: Update_def handleFilterInput_def browsing_fields)
  have c: "filteredProjects sample_lib (browsing\<lparr>filtering := True, filterText := ''e''\<rparr>)
       = [named ''Beta'']"
    by (simp add: filteredProjects_def browsing_fields sample_lib_def lower_names
        three_projects_filtered)
  have d: "selectedIdx (browsing\<lparr>filtering := True, filterText := ''e''\<rparr>) = 2"
    by (simp add: browsing_fields)
  from c d have e: "\<not> selection_in_range sample_lib (browsing\<lparr>filtering := True, filterText := ''e''\<rparr>)"
    by (simp add: selection_in_range_def)
  from reach_browsing a b c d e show ?thesis by blast
qed

text \<open>
  Claim C4, as amended. In every row the subject segment is this: nothing for an empty
  subject; a non-empty subject of at most 30 bytes unchanged between double quotes; a
  longer one cut to its first 27 bytes followed by \<open>...\<close>, between double quotes. What
  stands between the quotes never exceeds 30 bytes, and the segment is part of the row.
\<close>

theorem subject_rendering:
  "subjectPart t g =
     (if LastCommitMsg g = [] then []
      else if length (LastCommitMsg g) \<le> 30
      then [Subtle t (dquote @ LastCommitMsg g @ dquote)]
      else [Subtle t (dquote @ take 27 (LastCommitMsg g) @ ''...'' @ dquote)])
   \<and> length (if length (LastCommitMsg g) \<le> 30 then LastCommitMsg g
              else take 27 (LastCommitMsg g) @ ''...'') \<le> 30
   \<and> (\<exists>before after.
         renderProjectParts U t p selected = before @ subjectPart t (Git p) @ after)"
proof -
  have "\<exists>before after.
         renderProjectParts U t p selected = before @ subjectPart t (Git p) @ after"
    unfolding renderProjectParts_def append_assoc[symmetric]
    by (intro exI) (rule refl)
  then show ?thesis by (simp add: subjectPart_def Let_def)
qed

text \<open>
  The claim as stated fails for a last commit whose subject is empty: it has at most
  30 characters, and the row shows no quoted segment for it. It also fails for a
  subject of 12 characters that takes 36 bytes: it is cut, not rendered unchanged.
\<close>

theorem subject_rendering_counterexample:
  "fst (GetStatus sample_lib os_empty_subject (NewGitClient 0) ''/src/app'')
     = (commit_without_subject, None)
   \<and> LastCommitAuthor commit_without_subject = ''ann''
   \<and> length (LastCommitMsg commit_without_subject) \<le> 30
   \<and> subjectPart plain_theme commit_without_subject
       \<noteq> [Subtle plain_theme (dquote @ LastCommitMsg commit_without_subject @ dquote)]
   \<and> subjectPart plain_theme commit_without_subject = []
   \<and> spec_characters wide_subject \<le> 30
   \<and> subjectPart plain_theme (commit_without_subject\<lparr>LastCommitMsg := wide_subject\<rparr>)
       \<noteq> [Subtle plain_theme (dquote @ wide_subject @ dquote)]"
proof -
  have "subjectPart plain_theme (commit_without_subject\<lparr>LastCommitMsg := wide_subject\<rparr>)
          = [dquote @ (take 27 wide_subject @ ''...'') @ dquote]"
    by (simp add: subjectPart_def Let_def wide_subject_facts(2,4) plain_theme_def)
  with wide_subject_cut
  have "subjectPart plain_theme (commit_without_subject\<lparr>LastCommitMsg := wide_subject\<rparr>)
          \<noteq> [Subtle plain_theme (dquote @ wide_subject @ dquote)]"
    by (simp add: plain_theme_def)
  then show ?thesis
    by (simp add: empty_subject_GetStatus wide_subject_facts(1))
       (simp add: commit_without_subject_def subjectPart_def)
qed

text \<open>
  Claim C7, as amended. Both screens render exactly \<open>Loading...\<close> until the first
  window-size message arrives, whatever other messages arrive before it, and the list
  screen does not panic on them. Any window-size message, of any width and height,
  makes the screen ready.
\<close>

theorem Loading_until_first_window_size:
  "(\<not> list_ex is_WindowSizeMsg ms \<longrightarrow>
      (\<exists>s. Updates L U (NewProjectsListScreen U dir isDark name) ms = Inr s
           \<and> View L U s = ''Loading...'')
      \<and> DetailView L U (DetailUpdates (NewProjectDetailScreen U p isDark name) ms) = ''Loading...'')
   \<and> (\<exists>s'. Update L U s0 (WindowSizeMsg w h) = Inr (s', None) \<and> ready s'
            \<and> Width s' = w \<and> Height s' = h)
   \<and> ProjectDetailScreen.ready (fst (DetailUpdate d0 (WindowSizeMsg w h)))"
proof -
  have a: "\<exists>s. Updates L U (NewProjectsListScreen U dir isDark name) ms = Inr s
             \<and> View L U s = ''Loading...''" if n: "\<not> list_ex is_WindowSizeMsg ms"
  proof -
    obtain s where s: "Updates L U (NewProjectsListScreen U dir isDark name) ms = Inr s"
      using Updates_no_panic[of "NewProjectsListScreen U dir isDark name" L U ms]
      by (auto simp add: New_list_fields)
    from Updates_keep_ready[OF n s] have "\<not> ready s" by (simp add: New_list_fields)
    with s show ?thesis by (simp add: View_def)
  qed
  have b: "DetailView L U (DetailUpdates (NewProjectDetailScreen U p isDark name) ms) = ''Loading...''"
    if n: "\<not> list_ex is_WindowSizeMsg ms"
    using DetailUpdates_keep_ready[OF n, of "NewProjectDetailScreen U p isDark name"]
    by (simp add: DetailView_def New_detail_fields)
  show ?thesis using a b by (simp add: Update_def DetailUpdate_def)
qed

text \<open>
  The claim as stated fails for a window size of 0 by 0: the message makes the screen
  ready with zero width and height, and the view is the full layout.
\<close>

theorem Loading_at_zero_size_counterexample:
  "Update sample_lib plain_ui sample_screen (WindowSizeMsg 0 0) =
     Inr (sample_screen\<lparr>Width := 0, Height := 0, ready := True\<rparr>, None)
   \<and> Width (sample_screen\<lparr>Width := 0, Height := 0, ready := True\<rparr>) = 0
   \<and> Height (sample_screen\<lparr>Width := 0, Height := 0, ready := True\<rparr>) = 0
   \<and> View sample_lib plain_ui (sample_screen\<lparr>Width := 0, Height := 0, ready := True\<rparr>)
       \<noteq> ''Loading...''"
  by (simp add: Update_def View_def Let_def sample_screen_fields filteredProjects_def
      plain_theme_def plain_ui_def ScreenBase.defs newline_def Sprintf_d_def natToStr_0)

theorem Loading_until_first_window_size_witness:
  "\<not> list_ex is_WindowSizeMsg [KeyPressMsg ''j'', ScanCompleteMsg [] None]
   \<and> (\<exists>s. Updates sample_lib plain_ui (NewProjectsListScreen plain_ui ''/src'' False ''projector'')
              [KeyPressMsg ''j'', ScanCompleteMsg [] None] = Inr s
           \<and> View sample_lib plain_ui s = ''Loading...'')"
  using Loading_until_first_window_size[of "[KeyPressMsg ''j'', ScanCompleteMsg [] None]"
      sample_lib plain_ui "''/src''" False "''projector''"]
  by simp

text \<open>
  Claim C8, as amended. In normal mode (not filtering), while a scan is in flight, the
  key \<open>r\<close> leaves the whole state of the list screen unchanged and returns no
  command.
\<close>

theorem refresh_while_scanning_is_noop:
  assumes "scanning s" and "\<not> filtering s"
  shows "Update L U s (KeyPressMsg ''r'') = Inr (s, None)"
  using assms by (simp add: Update_def handleNormalInput_def Let_def split: option.splits)

text \<open>
  The claim as stated fails in filter mode: while scanning, the key \<open>r\<close> is appended
  to the filter text.
\<close>

theorem refresh_while_scanning_counterexample:
  "scanning (sample_screen\<lparr>scanning := True, filtering := True\<rparr>)
   \<and> Update sample_lib plain_ui (sample_screen\<lparr>scanning := True, filtering := True\<rparr>)
        (KeyPressMsg ''r'')
       = Inr (sample_screen\<lparr>scanning := True, filtering := True, filterText := ''r''\<rparr>, None)
   \<and> filterText (sample_screen\<lparr>scanning := True, filtering := True, filterText := ''r''\<rparr>)
       \<noteq> filterText (sample_screen\<lparr>scanning := True, filtering := True\<rparr>)"
  by (simp add: Update_def handleFilterInput_def sample_screen_fields)

theorem refresh_while_scanning_is_noop_witness:
  "scanning (sample_screen\<lparr>scanning := True\<rparr>)
   \<and> \<not> filtering (sample_screen\<lparr>scanning := True\<rparr>)
   \<and> Update sample_lib plain_ui (sample_screen\<lparr>scanning := True\<rparr>) (KeyPressMsg ''r'')
       = Inr (sample_screen\<lparr>scanning := True\<rparr>, None)"
  using refresh_while_scanning_is_noop[of "sample_screen\<lparr>scanning := True\<rparr>" sample_lib plain_ui]
  by (simp add: sample_screen_fields)

text \<open>
  Claim C9. In filter mode with an empty filter text, typing any sequence of
  single-byte keys and then pressing backspace as many times gives back the state
  before, whose filter text is empty and whose filtered list is the whole project list.
\<close>

theorem filter_text_round_trip:
  assumes "filtering s" and "filterText s = []" and "\<forall>k \<in> set ks. length k = 1"
  shows "Updates L U s (map KeyPressMsg ks @ replicate (length ks) (KeyPressMsg ''backspace''))
           = Inr s
         \<and> filteredProjects L s = projects s"
proof -
  let ?t = "s\<lparr>filterText := filterText s @ concat ks\<rparr>"
  have "Updates L U s (map KeyPressMsg ks) = Inr ?t"
    using assms(1,3) by (rule typing_keys)
  moreover have "Updates L U ?t (replicate (length ks) (KeyPressMsg ''backspace'')) =
      Inr (?t\<lparr>filterText := take (length (filterText ?t) - length ks) (filterText ?t)\<rparr>)"
    using assms(1) by (intro backspaces) simp
  moreover have "?t\<lparr>filterText := take (length (filterText ?t) - length ks) (filterText ?t)\<rparr> = s"
    using assms(2) length_concat_keys[OF assms(3)] by simp
  ultimately show ?thesis
    using assms(2) by (simp add: Updates_append filteredProjects_def)
qed

theorem filter_text_round_trip_witness:
  "filtering (sample_screen\<lparr>filtering := True\<rparr>)
   \<and> filterText (sample_screen\<lparr>filtering := True\<rparr>) = []
   \<and> Updates sample_lib plain_ui (sample_screen\<lparr>filtering := True\<rparr>)
        [KeyPressMsg ''g'', KeyPressMsg ''o'',
         KeyPressMsg ''backspace'', KeyPressMsg ''backspace'']
       = Inr (sample_screen\<lparr>filtering := True\<rparr>)"
  using filter_text_round_trip[of "sample_screen\<lparr>filtering := True\<rparr>" "[''g'', ''o'']"
      sample_lib plain_ui]
  by (simp add: sample_screen_fields numeral_2_eq_2)

end
